theory Spec2Isabelle
  imports Main "HOL-Library.Char_ord" "HOL-Library.List_Lexorder"
begin

section \<open>Python values shared by all modules\<close>

text \<open>
  File contents and raw digests are byte strings; Python \<open>str\<close> values are
  \<open>string\<close>s. Every \<open>raise\<close> of the source is a value of \<open>exn\<close>; the second
  component of the \<open>(success, detail)\<close> tuples the engines return is a \<open>detail\<close>
  (an identifier or storage key on success, a message or \<open>str(e)\<close> on failure).
\<close>

type_synonym bytes = "char list"

datatype detail =
    Ident string
  | Integrity_check_failed
  | Download_verified
  | Download_unverified
  | Invalid_checksum
  | No_wal_available
  | Exc_text exn
and exn =
    IOError
  | OSError
  | TypeError
  | ValueError
  | KeyError
  | ClientError
  | DatabaseError
  | UnboundLocalError
  | Pg_dump_failed
  | Upload_failed detail
  | No_wal_processed
  | No_full_backup_found
  | Backup_not_found string
  | Backup_not_completed string
  | Base_download_failed
  | Decompress_failed
  | Base_restore_failed

section \<open>utils/crypto.py\<close>

text \<open>
  \<open>hashlib\<close> is not part of the repository: the digest function is the parameter
  \<open>H\<close> (raw digest of the whole content). \<open>hexdigest\<close> renders a raw digest the
  way \<open>hash.hexdigest()\<close> does, two lower-case hexadecimal digits per byte.
\<close>

definition hex_digit :: "nat \<Rightarrow> char" where
  "hex_digit n = (if n < 10 then char_of (48 + n) else char_of (87 + n))"

definition hexdigest :: "bytes \<Rightarrow> string" where
  "hexdigest bs = concat (map (\<lambda>b. [hex_digit (of_char b div 16), hex_digit (of_char b mod 16)]) bs)"

definition is_upper :: "char \<Rightarrow> bool" where
  "is_upper c = (65 \<le> (of_char c :: nat) \<and> (of_char c :: nat) \<le> 90)"

definition is_lower :: "char \<Rightarrow> bool" where
  "is_lower c = (97 \<le> (of_char c :: nat) \<and> (of_char c :: nat) \<le> 122)"

definition lower_char :: "char \<Rightarrow> char" where
  "lower_char c = (if is_upper c then char_of (of_char c + 32 :: nat) else c)"

definition upper_char :: "char \<Rightarrow> char" where
  "upper_char c = (if is_lower c then char_of (of_char c - 32 :: nat) else c)"

definition lower :: "string \<Rightarrow> string" where
  "lower s = map lower_char s"

definition upper :: "string \<Rightarrow> string" where
  "upper s = map upper_char s"

definition case_variant :: "char \<Rightarrow> char \<Rightarrow> bool" where
  "case_variant a b = (a = b \<or> (is_upper a \<and> (of_char a + 32 :: nat) = of_char b)
      \<or> (is_upper b \<and> (of_char b + 32 :: nat) = of_char a))"

definition eq_ignoring_case :: "string \<Rightarrow> string \<Rightarrow> bool" where
  "eq_ignoring_case xs ys = list_all2 case_variant xs ys"


text \<open>
  The local file system is a map from paths to contents; opening a missing path raises.
  \<open>calculate_checksum\<close> reads the file in 4096-byte chunks and feeds them to one hash
  object, which digests the concatenation, that is the whole content.
\<close>

type_synonym filesystem = "string \<rightharpoonup> bytes"

definition calculate_checksum :: "(bytes \<Rightarrow> bytes) \<Rightarrow> filesystem \<Rightarrow> string \<Rightarrow> exn + string" where
  "calculate_checksum H fs file_path =
     (case fs file_path of
        None \<Rightarrow> Inl IOError
      | Some content \<Rightarrow> Inr (hexdigest (H content)))"

definition verify_checksum :: "(bytes \<Rightarrow> bytes) \<Rightarrow> filesystem \<Rightarrow> string \<Rightarrow> string \<Rightarrow> exn + bool" where
  "verify_checksum H fs file_path expected_checksum =
     (case calculate_checksum H fs file_path of
        Inl e \<Rightarrow> Inl e
      | Inr actual_checksum \<Rightarrow> Inr (lower actual_checksum = lower expected_checksum))"

section \<open>utils/s3_client.py\<close>

text \<open>
  The bucket is a map from keys to objects. \<open>boto3\<close> is not part of the repository:
  what one call of the transport does is given by an environment record. A transfer
  either raises (\<open>None\<close>) or delivers some bytes, which need not be the bytes sent.
\<close>

record s3_object =
  content :: bytes
  metadata :: "(string \<times> string) list"
  sse :: "string option"
  sse_kms_key :: "string option"

type_synonym bucket = "string \<rightharpoonup> s3_object"

record s3_config =
  prefix :: string
  encryption :: string
  kms_key_id :: "string option"

record transfer_env =
  utc_date :: string
  utc_iso :: string
  put_object :: "bytes \<Rightarrow> bytes option"
  get_object :: "bytes \<Rightarrow> bytes option"
  head_ok :: bool
  remove_ok :: bool

record storage =
  objects :: bucket
  files :: filesystem

definition basename :: "string \<Rightarrow> string" where
  "basename p = rev (takeWhile (\<lambda>c. c \<noteq> CHR ''/'') (rev p))"

definition get_s3_key :: "s3_config \<Rightarrow> transfer_env \<Rightarrow> string \<Rightarrow> string \<Rightarrow> string" where
  "get_s3_key cfg env backup_type filename =
     prefix cfg @ ''/'' @ backup_type @ ''/'' @ utc_date env @ ''/'' @ filename"

definition verify_upload ::
  "(bytes \<Rightarrow> bytes) \<Rightarrow> transfer_env \<Rightarrow> storage \<Rightarrow> string \<Rightarrow> string \<Rightarrow> string \<Rightarrow> storage \<times> bool" where
  "verify_upload H env st local_path s3_key expected_checksum =
     (let temp_path = local_path @ ''.verify'' in
      case objects st s3_key of
        None \<Rightarrow> (st, False)
      | Some obj \<Rightarrow>
          (case get_object env (content obj) of
             None \<Rightarrow> (st, False)
           | Some received \<Rightarrow>
               (let st1 = st\<lparr>files := (files st)(temp_path \<mapsto> received)\<rparr> in
                case verify_checksum H (files st1) temp_path expected_checksum of
                  Inl e \<Rightarrow> (st1, False)
                | Inr is_valid \<Rightarrow>
                    if remove_ok env
                    then (st1\<lparr>files := (files st1)(temp_path := None)\<rparr>, is_valid)
                    else (st1, False))))"

definition upload_filename :: "string \<Rightarrow> string option \<Rightarrow> string" where
  "upload_filename local_path filename_opt =
     (case filename_opt of
        None \<Rightarrow> basename local_path
      | Some f \<Rightarrow> if f = [] then basename local_path else f)"

definition extra_args :: "s3_config \<Rightarrow> transfer_env \<Rightarrow> string \<Rightarrow> string \<Rightarrow> string \<Rightarrow> s3_object" where
  "extra_args cfg env filename local_checksum backup_type =
     (let obj0 = \<lparr>content = [],
                  metadata = [(''original-filename'', filename),
                              (''checksum'', local_checksum),
                              (''upload-timestamp'', utc_iso env),
                              (''backup-type'', backup_type)],
                  sse = None, sse_kms_key = None\<rparr>
      in if encryption cfg = ''SSE-KMS''
         then (case kms_key_id cfg of
                 None \<Rightarrow> obj0
               | Some k \<Rightarrow> if k = [] then obj0
                           else obj0\<lparr>sse := Some ''aws:kms'', sse_kms_key := Some k\<rparr>)
         else if encryption cfg = ''SSE-S3''
         then obj0\<lparr>sse := Some ''AES256''\<rparr>
         else obj0)"

definition upload_file ::
  "(bytes \<Rightarrow> bytes) \<Rightarrow> s3_config \<Rightarrow> transfer_env \<Rightarrow> storage \<Rightarrow> string \<Rightarrow> string \<Rightarrow> string option
     \<Rightarrow> storage \<times> bool \<times> detail" where
  "upload_file H cfg env st local_path backup_type filename_opt =
     (let filename = upload_filename local_path filename_opt;
          s3_key = get_s3_key cfg env backup_type filename
      in
      case calculate_checksum H (files st) local_path of
        Inl e \<Rightarrow> (st, False, Exc_text e)
      | Inr local_checksum \<Rightarrow>
          (case files st local_path of
             None \<Rightarrow> (st, False, Exc_text IOError)
           | Some sent \<Rightarrow>
               (case put_object env sent of
                  None \<Rightarrow> (st, False, Exc_text ClientError)
                | Some stored \<Rightarrow>
                    (let obj = (extra_args cfg env filename local_checksum backup_type)\<lparr>content := stored\<rparr>;
                         st1 = st\<lparr>objects := (objects st)(s3_key \<mapsto> obj)\<rparr>;
                         (st2, ok) = verify_upload H env st1 local_path s3_key local_checksum
                     in if ok then (st2, True, Ident s3_key)
                        else (st2, False, Integrity_check_failed)))))"

definition download_file ::
  "(bytes \<Rightarrow> bytes) \<Rightarrow> transfer_env \<Rightarrow> storage \<Rightarrow> string \<Rightarrow> string \<Rightarrow> storage \<times> bool \<times> detail" where
  "download_file H env st s3_key local_path =
     (case objects st s3_key of
        None \<Rightarrow> (st, False, Exc_text ClientError)
      | Some obj \<Rightarrow>
          if \<not> head_ok env then (st, False, Exc_text ClientError)
          else
            (let expected_checksum = map_of (metadata obj) ''checksum'' in
             case get_object env (content obj) of
               None \<Rightarrow> (st, False, Exc_text ClientError)
             | Some received \<Rightarrow>
                 (let st1 = st\<lparr>files := (files st)(local_path \<mapsto> received)\<rparr> in
                  case expected_checksum of
                    None \<Rightarrow> (st1, True, Download_unverified)
                  | Some c \<Rightarrow>
                      if c = [] then (st1, True, Download_unverified)
                      else
                        (case verify_checksum H (files st1) local_path c of
                           Inl e \<Rightarrow> (st1, False, Exc_text e)
                         | Inr valid \<Rightarrow>
                             if valid then (st1, True, Download_verified)
                             else if remove_ok env
                             then (st1\<lparr>files := (files st1)(local_path := None)\<rparr>, False, Invalid_checksum)
                             else (st1, False, Exc_text OSError)))))"

definition delete_file :: "bool \<Rightarrow> bucket \<Rightarrow> string \<Rightarrow> bucket \<times> bool" where
  "delete_file delete_ok objs s3_key =
     (if delete_ok then (objs(s3_key := None), True) else (objs, False))"

section \<open>utils/metadata.py\<close>

text \<open>
  The ledger holds the rows of the three tables in insertion order. Timestamps are
  microseconds on the UTC time line. Columns that no operation below reads
  (\<open>description\<close>, \<open>metadata_json\<close>, \<open>created_at\<close>, \<open>updated_at\<close>, the serial \<open>id\<close>s,
  \<open>target_xid\<close>, \<open>target_lsn\<close>) are left out.

  \<open>psycopg2\<close> and the database server are not part of the repository. What one
  statement meets there is a \<open>db_outcome\<close>: the store was reached and the statement ran
  (\<open>Db_ok\<close>), the statement or its commit was refused (\<open>Db_exec_error\<close>), or no
  connection could be had (\<open>Db_conn_error\<close>). The constraints that the schema of
  \<open>_initialize_schema\<close> declares and that the operations below can violate are checked
  by the model itself: \<open>backup_id\<close> and \<open>restore_id\<close> are \<open>UNIQUE\<close>,
  \<open>wal_metadata.backup_id\<close> and \<open>restore_operations.backup_id\<close> reference
  \<open>backup_metadata(backup_id)\<close>, and \<open>sequence_number\<close> is a \<open>BIGINT\<close>.
\<close>

datatype db_outcome = Db_ok | Db_exec_error | Db_conn_error

text \<open>
  A Python \<open>datetime\<close> is naive or aware. The \<open>TIMESTAMP WITH TIME ZONE\<close> columns
  come back from the driver as aware values, so a row carries the instant itself;
  a value parsed from the user's text is aware only when the text names an offset.
\<close>

datatype pydatetime = Naive int | Aware int

record backup_row =
  backup_id :: string
  backup_type :: string
  status :: string
  start_ts :: int
  end_ts :: "int option"
  size_bytes :: "int option"
  s3_key :: "string option"
  s3_bucket :: "string option"
  checksum :: "string option"
  compression :: "string option"
  row_encryption :: "string option"
  label :: "string option"

record wal_row =
  wal_name :: string
  wal_backup_id :: string
  wal_start_ts :: int
  wal_end_ts :: int
  wal_size_bytes :: "int option"
  wal_s3_key :: "string option"
  wal_checksum :: "string option"
  sequence_number :: int

record restore_row =
  restore_id :: string
  restore_backup_id :: string
  target_time :: "pydatetime option"
  restore_status :: string
  restore_start_ts :: int
  restore_end_ts :: "int option"
  destination_path :: string
  error_message :: "detail option"

record ledger =
  backups :: "backup_row list"
  wals :: "wal_row list"
  restores :: "restore_row list"

definition backup_exists :: "ledger \<Rightarrow> string \<Rightarrow> bool" where
  "backup_exists led bid = (bid \<in> set (map backup_id (backups led)))"

definition is_bigint :: "int \<Rightarrow> bool" where
  "is_bigint n = (- (2 ^ 63) \<le> n \<and> n < 2 ^ 63)"

text \<open>
  An \<open>INSERT\<close> names its parameters (\<open>%(end_ts)s\<close>) and is handed a dictionary.
  The driver fills the statement in before it sends anything, and a named parameter
  that the dictionary does not carry raises \<open>KeyError\<close> there. The model takes the
  keys of the dictionary beside the row built from its values. The dictionary that
  \<open>create_incremental_backup\<close> hands to \<open>create_wal_record\<close> carries all eight
  parameters of that statement, so \<open>create_wal_record\<close> takes the row alone.
\<close>

definition backup_insert_parameters :: "string list" where
  "backup_insert_parameters =
     [''backup_id'', ''backup_type'', ''status'', ''start_ts'', ''end_ts'', ''size_bytes'',
      ''s3_key'', ''s3_bucket'', ''checksum'', ''compression'', ''encryption'', ''label'',
      ''description'', ''metadata_json'']"

definition restore_insert_parameters :: "string list" where
  "restore_insert_parameters =
     [''restore_id'', ''backup_id'', ''target_time'', ''target_xid'', ''target_lsn'',
      ''status'', ''start_ts'', ''destination_path'']"

definition carries :: "string list \<Rightarrow> string list \<Rightarrow> bool" where
  "carries dict_keys parameters = list_all (\<lambda>p. p \<in> set dict_keys) parameters"

text \<open>
  \<open>create_backup_record\<close>, \<open>create_wal_record\<close> and \<open>create_restore_record\<close> roll back
  and raise again. When no connection could be had, \<open>conn\<close> and \<open>cursor\<close> were never
  bound, and the handler's \<open>if conn:\<close> raises \<open>UnboundLocalError\<close> in place of the
  original error.
\<close>

definition create_backup_record :: "ledger \<Rightarrow> db_outcome \<Rightarrow> string list \<Rightarrow> backup_row \<Rightarrow> exn + ledger" where
  "create_backup_record led outcome dict_keys backup_data =
     (if outcome = Db_conn_error then Inl UnboundLocalError
      else if \<not> carries dict_keys backup_insert_parameters then Inl KeyError
      else if outcome = Db_exec_error then Inl DatabaseError
      else if backup_exists led (backup_id backup_data) then Inl DatabaseError
      else Inr (led\<lparr>backups := backups led @ [backup_data]\<rparr>))"

text \<open>
  Of the keyword arguments only \<open>size_bytes\<close>, \<open>s3_key\<close> and \<open>checksum\<close> reach the
  \<open>UPDATE\<close>; the outer \<open>option\<close> of a field says whether the keyword was passed.
  \<open>update_backup_status\<close> swallows a refused statement and answers \<open>False\<close>; without a
  connection its \<open>if conn:\<close> and \<open>if cursor:\<close> raise \<open>UnboundLocalError\<close>.
\<close>

record status_kwargs =
  kw_size_bytes :: "int option option"
  kw_s3_key :: "string option option"
  kw_s3_bucket :: "string option option"
  kw_checksum :: "string option option"
  kw_compression :: "string option option"
  kw_encryption :: "string option option"

definition no_kwargs :: status_kwargs where
  "no_kwargs = \<lparr>kw_size_bytes = None, kw_s3_key = None, kw_s3_bucket = None,
                 kw_checksum = None, kw_compression = None, kw_encryption = None\<rparr>"

definition apply_update :: "string \<Rightarrow> int option \<Rightarrow> status_kwargs \<Rightarrow> backup_row \<Rightarrow> backup_row" where
  "apply_update new_status new_end_ts kwargs row =
     (let r1 = row\<lparr>status := new_status\<rparr>;
          r2 = (case new_end_ts of None \<Rightarrow> r1 | Some t \<Rightarrow> r1\<lparr>end_ts := Some t\<rparr>);
          r3 = (case kw_size_bytes kwargs of None \<Rightarrow> r2 | Some v \<Rightarrow> r2\<lparr>size_bytes := v\<rparr>);
          r4 = (case kw_s3_key kwargs of None \<Rightarrow> r3 | Some v \<Rightarrow> r3\<lparr>s3_key := v\<rparr>);
          r5 = (case kw_checksum kwargs of None \<Rightarrow> r4 | Some v \<Rightarrow> r4\<lparr>checksum := v\<rparr>)
      in r5)"

definition update_backup_status ::
  "ledger \<Rightarrow> db_outcome \<Rightarrow> string \<Rightarrow> string \<Rightarrow> int option \<Rightarrow> status_kwargs \<Rightarrow> exn + ledger \<times> bool" where
  "update_backup_status led outcome bid new_status new_end_ts kwargs =
     (case outcome of
        Db_conn_error \<Rightarrow> Inl UnboundLocalError
      | Db_exec_error \<Rightarrow> Inr (led, False)
      | Db_ok \<Rightarrow>
          Inr (led\<lparr>backups := map (\<lambda>row. if backup_id row = bid
                                            then apply_update new_status new_end_ts kwargs row
                                            else row) (backups led)\<rparr>, True))"

definition get_backup_by_id :: "ledger \<Rightarrow> bool \<Rightarrow> string \<Rightarrow> backup_row option" where
  "get_backup_by_id led query_ok bid =
     (if query_ok then find (\<lambda>row. backup_id row = bid) (backups led) else None)"

text \<open>
  \<open>ORDER BY\<close> leaves the order of rows with equal keys open; the model keeps them in
  insertion order (a stable sort).
\<close>

definition list_backups :: "ledger \<Rightarrow> bool \<Rightarrow> string option \<Rightarrow> string option \<Rightarrow> nat \<Rightarrow> backup_row list" where
  "list_backups led query_ok type_filter status_filter limit =
     (if \<not> query_ok then []
      else
        (let rows1 = (case type_filter of
                        None \<Rightarrow> backups led
                      | Some t \<Rightarrow> if t = [] then backups led
                                  else filter (\<lambda>row. backup_type row = t) (backups led));
             rows2 = (case status_filter of
                        None \<Rightarrow> rows1
                      | Some s \<Rightarrow> if s = [] then rows1
                                  else filter (\<lambda>row. status row = s) rows1)
         in take limit (sort_key (\<lambda>row. - start_ts row) rows2)))"

definition get_latest_backup :: "ledger \<Rightarrow> bool \<Rightarrow> string \<Rightarrow> backup_row option" where
  "get_latest_backup led query_ok btype =
     (if \<not> query_ok then None
      else (case sort_key (\<lambda>row. - start_ts row)
                   (filter (\<lambda>row. backup_type row = btype \<and> status row = ''completed'') (backups led)) of
              [] \<Rightarrow> None
            | row # _ \<Rightarrow> Some row))"

definition create_wal_record :: "ledger \<Rightarrow> db_outcome \<Rightarrow> wal_row \<Rightarrow> exn + ledger" where
  "create_wal_record led outcome wal_data =
     (case outcome of
        Db_conn_error \<Rightarrow> Inl UnboundLocalError
      | Db_exec_error \<Rightarrow> Inl DatabaseError
      | Db_ok \<Rightarrow>
          if backup_exists led (wal_backup_id wal_data) \<and> is_bigint (sequence_number wal_data)
          then Inr (led\<lparr>wals := wals led @ [wal_data]\<rparr>)
          else Inl DatabaseError)"

definition get_wals_for_backup :: "ledger \<Rightarrow> bool \<Rightarrow> string \<Rightarrow> wal_row list" where
  "get_wals_for_backup led query_ok bid =
     (if query_ok
      then sort_key sequence_number (filter (\<lambda>w. wal_backup_id w = bid) (wals led))
      else [])"

definition create_restore_record :: "ledger \<Rightarrow> db_outcome \<Rightarrow> string list \<Rightarrow> restore_row \<Rightarrow> exn + ledger" where
  "create_restore_record led outcome dict_keys restore_data =
     (if outcome = Db_conn_error then Inl UnboundLocalError
      else if \<not> carries dict_keys restore_insert_parameters then Inl KeyError
      else if outcome = Db_exec_error then Inl DatabaseError
      else if backup_exists led (restore_backup_id restore_data)
              \<and> restore_id restore_data \<notin> set (map restore_id (restores led))
      then Inr (led\<lparr>restores := restores led @ [restore_data]\<rparr>)
      else Inl DatabaseError)"

section \<open>core/backup.py\<close>

subsection \<open>WAL file names\<close>

text \<open>
  \<open>int(name_part, 16)\<close> is Python's integer parser, which is not part of the
  repository; \<open>py_int16\<close> follows its grammar for base 16 on ASCII text: surrounding
  white space (tab, line feed, vertical tab, form feed, carriage return, space), an
  optional sign, an optional \<open>0x\<close> or \<open>0X\<close>, then hexadecimal digits
  of either case, with single underscores allowed between digits and after the prefix.
  \<open>None\<close> is the \<open>ValueError\<close>.
\<close>

definition digit_val :: "char \<Rightarrow> nat option" where
  "digit_val c =
     (let n = (of_char c :: nat) in
      if 48 \<le> n \<and> n \<le> 57 then Some (n - 48)
      else if 97 \<le> n \<and> n \<le> 102 then Some (n - 87)
      else if 65 \<le> n \<and> n \<le> 70 then Some (n - 55)
      else None)"

fun hex_digits :: "nat \<Rightarrow> string \<Rightarrow> nat option" where
  "hex_digits acc [] = Some acc"
| "hex_digits acc [c] = (case digit_val c of None \<Rightarrow> None | Some v \<Rightarrow> Some (16 * acc + v))"
| "hex_digits acc (c # d # ds) =
     (if c = CHR ''_''
      then (case digit_val d of None \<Rightarrow> None | Some v \<Rightarrow> hex_digits (16 * acc + v) ds)
      else (case digit_val c of None \<Rightarrow> None | Some v \<Rightarrow> hex_digits (16 * acc + v) (d # ds)))"

definition hex_number :: "string \<Rightarrow> nat option" where
  "hex_number s =
     (case s of
        [] \<Rightarrow> None
      | c # cs \<Rightarrow> (case digit_val c of None \<Rightarrow> None | Some v \<Rightarrow> hex_digits v cs))"

definition is_space :: "char \<Rightarrow> bool" where
  "is_space c = (let n = (of_char c :: nat) in (9 \<le> n \<and> n \<le> 13) \<or> n = 32)"

definition strip :: "string \<Rightarrow> string" where
  "strip s = rev (dropWhile is_space (rev (dropWhile is_space s)))"

definition unprefixed :: "string \<Rightarrow> string" where
  "unprefixed s =
     (case s of
        z # x # rest \<Rightarrow>
          if z = CHR ''0'' \<and> (x = CHR ''x'' \<or> x = CHR ''X'')
          then (case rest of
                  u # rest' \<Rightarrow> if u = CHR ''_'' then rest' else rest
                | [] \<Rightarrow> rest)
          else s
      | _ \<Rightarrow> s)"

definition py_int16 :: "string \<Rightarrow> int option" where
  "py_int16 s =
     (case strip s of
        [] \<Rightarrow> None
      | c # cs \<Rightarrow>
          if c = CHR ''-'' then map_option (\<lambda>n. - int n) (hex_number (unprefixed cs))
          else if c = CHR ''+'' then map_option int (hex_number (unprefixed cs))
          else map_option int (hex_number (unprefixed (c # cs))))"

definition split_first :: "char \<Rightarrow> string \<Rightarrow> string" where
  "split_first sep s = takeWhile (\<lambda>c. c \<noteq> sep) s"

definition extract_wal_sequence :: "string \<Rightarrow> int" where
  "extract_wal_sequence wal_filename =
     (let name_part = split_first CHR ''.'' wal_filename in
      case py_int16 name_part of None \<Rightarrow> 0 | Some n \<Rightarrow> n)"

text \<open>
  \<open>_get_wal_files\<close>: the directory listing is given (\<open>None\<close> when the directory is
  missing or cannot be read); a name is kept when it starts with \<open>0\<close>, is 24
  characters long, ends in \<open>.gz\<close> and names a regular file. The paths come back sorted.
\<close>

definition endswith :: "string \<Rightarrow> string \<Rightarrow> bool" where
  "endswith s suffix = (length suffix \<le> length s \<and> drop (length s - length suffix) s = suffix)"

definition get_wal_files :: "string \<Rightarrow> string list option \<Rightarrow> filesystem \<Rightarrow> string list" where
  "get_wal_files pg_wal_dir listing fs =
     (case listing of
        None \<Rightarrow> []
      | Some names \<Rightarrow>
          sort (map (\<lambda>f. pg_wal_dir @ ''/'' @ f)
                 (filter (\<lambda>f. take 1 f = ''0'' \<and> length f = 24 \<and> endswith f ''.gz''
                               \<and> fs (pg_wal_dir @ ''/'' @ f) \<noteq> None) names)))"

subsection \<open>The engine and what one run meets\<close>

record engine_config =
  s3_cfg :: s3_config
  bucket_name :: "string option"
  compression_enabled :: bool
  wal_directory :: string
  temp_dir :: string

text \<open>
  One run of \<open>create_full_backup\<close> meets: the identifier \<open>uuid4\<close> draws, the clock
  readings, the exit code of \<open>pg_dump\<close> (\<open>None\<close> for a timeout or a failed launch) and
  the file it left, what \<open>gzip\<close> makes of a content (\<open>None\<close> when \<open>compress_file\<close>
  fails), the transfer, and the outcome of each ledger statement.
\<close>

record full_env =
  fe_backup_id :: string
  fe_start_time :: int
  fe_stamp :: string
  fe_create :: db_outcome
  fe_dump_exit :: "int option"
  fe_dump_output :: "bytes option"
  fe_gzip :: "bytes \<Rightarrow> bytes option"
  fe_transfer :: transfer_env
  fe_end_time :: int
  fe_complete :: db_outcome
  fe_fail_time :: int
  fe_fail :: db_outcome

definition cleanup_temp_files :: "string \<Rightarrow> storage \<Rightarrow> storage" where
  "cleanup_temp_files dir st =
     st\<lparr>files := (\<lambda>p. if take (length dir + 1) p = dir @ ''/'' then None else files st p)\<rparr>"

definition execute_pg_dump :: "engine_config \<Rightarrow> full_env \<Rightarrow> storage \<Rightarrow> string \<Rightarrow> storage \<times> string option" where
  "execute_pg_dump cfg env st bid =
     (let backup_file = temp_dir cfg @ ''/'' @ bid @ ''.sql'' in
      case fe_dump_exit env of
        None \<Rightarrow> (st, None)
      | Some returncode \<Rightarrow>
          (let st1 = (case fe_dump_output env of
                        None \<Rightarrow> st
                      | Some out \<Rightarrow> st\<lparr>files := (files st)(backup_file \<mapsto> out)\<rparr>)
           in if returncode \<noteq> 0 then (st1, None)
              else (case files st1 backup_file of
                      None \<Rightarrow> (st1, None)
                    | Some out \<Rightarrow> if length out > 0 then (st1, Some backup_file) else (st1, None))))"

definition compress_step :: "engine_config \<Rightarrow> full_env \<Rightarrow> storage \<Rightarrow> string \<Rightarrow> storage \<times> string" where
  "compress_step cfg env st backup_file =
     (if compression_enabled cfg
      then (let compressed_file = backup_file @ ''.gz'' in
            case files st backup_file of
              None \<Rightarrow> (st, backup_file)
            | Some raw \<Rightarrow>
                (case fe_gzip env raw of
                   None \<Rightarrow> (st, backup_file)
                 | Some packed \<Rightarrow>
                     (st\<lparr>files := (files st)(compressed_file \<mapsto> packed, backup_file := None)\<rparr>,
                      compressed_file)))
      else (st, backup_file))"

text \<open>
  The dictionary built at the start of a full backup, as its keys and the row of its
  values, and the keyword arguments of the update that completes the record.
\<close>

definition full_backup_keys :: "string list" where
  "full_backup_keys =
     [''backup_id'', ''backup_type'', ''status'', ''start_ts'', ''label'', ''description'',
      ''metadata_json'']"

definition running_record :: "full_env \<Rightarrow> string option \<Rightarrow> backup_row" where
  "running_record env label_opt =
     \<lparr>backup_id = fe_backup_id env, backup_type = ''full'', status = ''running'',
      start_ts = fe_start_time env, end_ts = None, size_bytes = None,
      s3_key = None, s3_bucket = None, checksum = None, compression = None,
      row_encryption = None,
      label = Some (case label_opt of
                      None \<Rightarrow> ''full-backup-'' @ fe_stamp env
                    | Some l \<Rightarrow> if l = [] then ''full-backup-'' @ fe_stamp env else l)\<rparr>"

definition completed_kwargs :: "engine_config \<Rightarrow> string \<Rightarrow> int \<Rightarrow> string \<Rightarrow> string \<Rightarrow> status_kwargs" where
  "completed_kwargs cfg backup_file file_size key csum =
     \<lparr>kw_size_bytes = Some (Some file_size),
      kw_s3_key = Some (Some key),
      kw_s3_bucket = Some (bucket_name cfg),
      kw_checksum = Some (Some csum),
      kw_compression = Some (if endswith backup_file ''.gz'' then Some ''gzip'' else None),
      kw_encryption = Some (Some (encryption (s3_cfg cfg)))\<rparr>"

text \<open>
  The body of the \<open>try\<close> block: \<open>Inl\<close> is the exception that leaves it, \<open>Inr\<close> the
  value it returns. The answer of the completing \<open>update_backup_status\<close> is dropped.
\<close>

definition full_backup_try ::
  "(bytes \<Rightarrow> bytes) \<Rightarrow> engine_config \<Rightarrow> full_env \<Rightarrow> storage \<Rightarrow> ledger \<Rightarrow> string option
     \<Rightarrow> storage \<times> ledger \<times> (exn + bool \<times> detail)" where
  "full_backup_try H cfg env st led label_opt =
     (let bid = fe_backup_id env;
          backup_data = running_record env label_opt
      in
      case create_backup_record led (fe_create env) full_backup_keys backup_data of
        Inl e \<Rightarrow> (st, led, Inl e)
      | Inr led1 \<Rightarrow>
          (case execute_pg_dump cfg env st bid of
             (st1, None) \<Rightarrow> (st1, led1, Inl Pg_dump_failed)
           | (st1, Some dumped) \<Rightarrow>
               (let (st2, backup_file) = compress_step cfg env st1 dumped in
                case calculate_checksum H (files st2) backup_file of
                  Inl e \<Rightarrow> (st2, led1, Inl e)
                | Inr csum \<Rightarrow>
                    (case files st2 backup_file of
                       None \<Rightarrow> (st2, led1, Inl OSError)
                     | Some data \<Rightarrow>
                         (let file_size = int (length data);
                              filename = basename backup_file;
                              (st3, success, d) = upload_file H (s3_cfg cfg) (fe_transfer env) st2
                                                    backup_file ''full'' (Some filename)
                          in
                          if \<not> success then (st3, led1, Inl (Upload_failed d))
                          else
                            (case d of
                               Ident key \<Rightarrow>
                                 (case update_backup_status led1 (fe_complete env) bid ''completed''
                                         (Some (fe_end_time env))
                                         (completed_kwargs cfg backup_file file_size key csum) of
                                    Inl e \<Rightarrow> (st3, led1, Inl e)
                                  | Inr (led2, updated) \<Rightarrow> (st3, led2, Inr (True, Ident bid)))
                             | _ \<Rightarrow> (st3, led1, Inl TypeError)))))))"

text \<open>
  \<open>except Exception\<close> marks the record failed and answers \<open>(False, str(e))\<close>; an
  exception of that second update leaves the function. \<open>finally\<close> empties the
  temporary directory on every path.
\<close>

definition create_full_backup ::
  "(bytes \<Rightarrow> bytes) \<Rightarrow> engine_config \<Rightarrow> full_env \<Rightarrow> storage \<Rightarrow> ledger \<Rightarrow> string option
     \<Rightarrow> storage \<times> ledger \<times> (exn + bool \<times> detail)" where
  "create_full_backup H cfg env st led label_opt =
     (case full_backup_try H cfg env st led label_opt of
        (st', led', Inr result) \<Rightarrow> (cleanup_temp_files (temp_dir cfg) st', led', Inr result)
      | (st', led', Inl e) \<Rightarrow>
          (case update_backup_status led' (fe_fail env) (fe_backup_id env) ''failed''
                  (Some (fe_fail_time env)) no_kwargs of
             Inl e2 \<Rightarrow> (cleanup_temp_files (temp_dir cfg) st', led', Inl e2)
           | Inr (led'', updated) \<Rightarrow>
               (cleanup_temp_files (temp_dir cfg) st', led'', Inr (False, Exc_text e))))"

subsection \<open>Incremental backup\<close>

record segment_env =
  seg_transfer :: transfer_env
  seg_end_ts :: int
  seg_db :: db_outcome

record incr_env =
  ie_backup_id :: string
  ie_start_time :: int
  ie_stamp :: string
  ie_listing :: "string list option"
  ie_segment :: "string \<Rightarrow> segment_env"
  ie_end_time :: int
  ie_create :: db_outcome

text \<open>
  \<open>process_one_wal\<close> is one turn of the loop over the WAL files, the body of its own
  \<open>try\<close>: it answers the ledger with the new row when the file was uploaded and
  recorded, and \<open>None\<close> when the upload failed or anything raised. Whatever the turn
  answers, \<open>process_wal_files\<close> goes on with the next file; only a recorded file is
  appended to \<open>uploaded_wals\<close>.
\<close>

definition wal_data_of :: "incr_env \<Rightarrow> string \<Rightarrow> string \<Rightarrow> string \<Rightarrow> int \<Rightarrow> wal_row" where
  "wal_data_of env wal_file key csum file_size =
     \<lparr>wal_name = basename wal_file,
      wal_backup_id = ie_backup_id env,
      wal_start_ts = ie_start_time env,
      wal_end_ts = seg_end_ts (ie_segment env wal_file),
      wal_size_bytes = Some file_size,
      wal_s3_key = Some key,
      wal_checksum = Some csum,
      sequence_number = extract_wal_sequence (basename wal_file)\<rparr>"

definition process_one_wal ::
  "(bytes \<Rightarrow> bytes) \<Rightarrow> engine_config \<Rightarrow> incr_env \<Rightarrow> storage \<Rightarrow> ledger \<Rightarrow> string
     \<Rightarrow> storage \<times> ledger option" where
  "process_one_wal H cfg env st led wal_file =
     (let filename = basename wal_file;
          (st1, success, d) = upload_file H (s3_cfg cfg) (seg_transfer (ie_segment env wal_file)) st
                                wal_file ''incremental'' (Some filename)
      in
      if \<not> success then (st1, None)
      else
        (case d of
           Ident key \<Rightarrow>
             (case calculate_checksum H (files st1) wal_file of
                Inl e \<Rightarrow> (st1, None)
              | Inr csum \<Rightarrow>
                  (case files st1 wal_file of
                     None \<Rightarrow> (st1, None)
                   | Some data \<Rightarrow>
                       (case create_wal_record led (seg_db (ie_segment env wal_file))
                               (wal_data_of env wal_file key csum (int (length data))) of
                          Inl e \<Rightarrow> (st1, None)
                        | Inr led1 \<Rightarrow> (st1, Some led1))))
         | _ \<Rightarrow> (st1, None)))"

fun process_wal_files ::
  "(bytes \<Rightarrow> bytes) \<Rightarrow> engine_config \<Rightarrow> incr_env \<Rightarrow> string list \<Rightarrow> storage \<Rightarrow> ledger \<Rightarrow> string list
     \<Rightarrow> storage \<times> ledger \<times> string list" where
  "process_wal_files H cfg env [] st led uploaded_wals = (st, led, uploaded_wals)"
| "process_wal_files H cfg env (wal_file # rest) st led uploaded_wals =
     (case process_one_wal H cfg env st led wal_file of
        (st1, None) \<Rightarrow> process_wal_files H cfg env rest st1 led uploaded_wals
      | (st1, Some led1) \<Rightarrow>
          process_wal_files H cfg env rest st1 led1 (uploaded_wals @ [basename wal_file]))"

text \<open>
  The dictionary of the batch marker that is written after the loop, as its keys and
  the row of its values.
\<close>

definition marker_keys :: "string list" where
  "marker_keys =
     [''backup_id'', ''backup_type'', ''status'', ''start_ts'', ''end_ts'', ''label'',
      ''description'', ''metadata_json'']"

definition marker_record :: "incr_env \<Rightarrow> string option \<Rightarrow> backup_row" where
  "marker_record env label_opt =
     \<lparr>backup_id = ie_backup_id env, backup_type = ''incremental'', status = ''completed'',
      start_ts = ie_start_time env, end_ts = Some (ie_end_time env),
      size_bytes = None, s3_key = None, s3_bucket = None, checksum = None,
      compression = None, row_encryption = None,
      label = Some (case label_opt of
                      None \<Rightarrow> ''incremental-backup-'' @ ie_stamp env
                    | Some l \<Rightarrow> if l = [] then ''incremental-backup-'' @ ie_stamp env else l)\<rparr>"

definition create_incremental_backup ::
  "(bytes \<Rightarrow> bytes) \<Rightarrow> engine_config \<Rightarrow> incr_env \<Rightarrow> storage \<Rightarrow> ledger \<Rightarrow> string option
     \<Rightarrow> storage \<times> ledger \<times> bool \<times> detail" where
  "create_incremental_backup H cfg env st led label_opt =
     (let bid = ie_backup_id env;
          wal_files = get_wal_files (wal_directory cfg) (ie_listing env) (files st)
      in
      if wal_files = [] then (cleanup_temp_files (temp_dir cfg) st, led, False, No_wal_available)
      else
        (let (st1, led1, uploaded_wals) = process_wal_files H cfg env wal_files st led [] in
         if uploaded_wals = []
         then (cleanup_temp_files (temp_dir cfg) st1, led1, False, Exc_text No_wal_processed)
         else
           (case create_backup_record led1 (ie_create env) marker_keys (marker_record env label_opt) of
              Inl e \<Rightarrow> (cleanup_temp_files (temp_dir cfg) st1, led1, False, Exc_text e)
            | Inr led2 \<Rightarrow> (cleanup_temp_files (temp_dir cfg) st1, led2, True, Ident bid))))"

text \<open>
  What the proofs below keep track of along the loop: the rows added after a ledger
  \<open>led\<close> all belong to the run's identifier, carry the sequence number extracted from
  their name, and can only be there when the identifier was in \<open>backup_metadata\<close>.
\<close>

definition new_rows_ok :: "incr_env \<Rightarrow> ledger \<Rightarrow> wal_row list \<Rightarrow> bool" where
  "new_rows_ok env led new =
     ((new \<noteq> [] \<longrightarrow> backup_exists led (ie_backup_id env)) \<and>
      (\<forall>w \<in> set new. wal_backup_id w = ie_backup_id env
                      \<and> sequence_number w = extract_wal_sequence (wal_name w)
                      \<and> is_bigint (sequence_number w)))"


section \<open>core/restore.py\<close>

text \<open>
  \<open>datetime.fromisoformat\<close> is the parameter \<open>P\<close> (\<open>None\<close> is its \<open>ValueError\<close>).
  Comparing an aware with a naive \<open>datetime\<close> raises \<open>TypeError\<close>.
\<close>

definition datetime_gt :: "pydatetime \<Rightarrow> pydatetime \<Rightarrow> exn + bool" where
  "datetime_gt a b =
     (case (a, b) of
        (Aware x, Aware y) \<Rightarrow> Inr (x > y)
      | (Naive x, Naive y) \<Rightarrow> Inr (x > y)
      | _ \<Rightarrow> Inl TypeError)"

record wal_env =
  we_transfer :: transfer_env
  we_apply_exit :: "int option"

record restore_env =
  re_restore_id :: string
  re_start_time :: int
  re_latest_query_ok :: bool
  re_get_query_ok :: bool
  re_makedirs_ok :: bool
  re_create :: db_outcome
  re_base_transfer :: transfer_env
  re_gunzip :: "bytes \<Rightarrow> bytes option"
  re_tool_exit :: "string \<Rightarrow> int option"
  re_wals_query_ok :: bool
  re_wal :: "wal_row \<Rightarrow> wal_env"
  re_recovery_write_ok :: bool
  re_end_time :: int
  re_complete :: db_outcome
  re_fail_time :: int
  re_fail :: db_outcome

record restore_config =
  rc_temp_dir :: string
  rc_default_destination :: string

definition find_latest_full_backup :: "restore_env \<Rightarrow> ledger \<Rightarrow> string option" where
  "find_latest_full_backup env led =
     (case get_latest_backup led (re_latest_query_ok env) ''full'' of
        None \<Rightarrow> None
      | Some latest_backup \<Rightarrow> Some (backup_id latest_backup))"

definition download_backup_file ::
  "(bytes \<Rightarrow> bytes) \<Rightarrow> restore_config \<Rightarrow> restore_env \<Rightarrow> storage \<Rightarrow> backup_row \<Rightarrow> storage \<times> string option" where
  "download_backup_file H cfg env st backup_metadata =
     (case s3_key backup_metadata of
        None \<Rightarrow> (st, None)
      | Some key \<Rightarrow>
          if key = [] then (st, None)
          else
            (let filename = basename key;
                 local_path = rc_temp_dir cfg @ ''/'' @ filename;
                 (st1, success, message) = download_file H (re_base_transfer env) st key local_path
             in
             if \<not> success then (st1, None)
             else
               (case checksum backup_metadata of
                  None \<Rightarrow> (st1, Some local_path)
                | Some expected_checksum \<Rightarrow>
                    if expected_checksum = [] then (st1, Some local_path)
                    else
                      (case verify_checksum H (files st1) local_path expected_checksum of
                         Inl e \<Rightarrow> (st1, None)
                       | Inr valid \<Rightarrow>
                           if valid then (st1, Some local_path)
                           else if remove_ok (re_base_transfer env)
                           then (st1\<lparr>files := (files st1)(local_path := None)\<rparr>, None)
                           else (st1, None)))))"

definition restore_base_backup :: "restore_env \<Rightarrow> string \<Rightarrow> bool" where
  "restore_base_backup env backup_file =
     (if endswith backup_file ''.dump'' \<or> endswith backup_file ''.backup''
      then re_tool_exit env ''pg_restore'' = Some 0
      else re_tool_exit env ''psql'' = Some 0)"

definition apply_single_wal :: "wal_env \<Rightarrow> bool" where
  "apply_single_wal wenv = (we_apply_exit wenv = Some 0)"

text \<open>
  The loop of \<open>_apply_wal_files\<close>. A row without a storage key makes
  \<open>os.path.basename\<close> raise, which the inner \<open>except\<close> turns into \<open>continue\<close>, as it
  does with the \<open>TypeError\<close> of the comparison. The download comes before the
  comparison with the target; \<open>break\<close> ends the loop. \<open>applied_wals\<close> is the list the
  function counts in its last log line.
\<close>

fun apply_wal_loop ::
  "(bytes \<Rightarrow> bytes) \<Rightarrow> restore_config \<Rightarrow> restore_env \<Rightarrow> pydatetime \<Rightarrow> wal_row list \<Rightarrow> storage \<Rightarrow> string list
     \<Rightarrow> storage \<times> string list" where
  "apply_wal_loop H cfg env target_dt [] st applied_wals = (st, applied_wals)"
| "apply_wal_loop H cfg env target_dt (wal_metadata # rest) st applied_wals =
     (case wal_s3_key wal_metadata of
        None \<Rightarrow> apply_wal_loop H cfg env target_dt rest st applied_wals
      | Some key \<Rightarrow>
          (let wal_filename = basename key;
               local_wal_path = rc_temp_dir cfg @ ''/'' @ wal_filename;
               (st1, success, message) =
                  download_file H (we_transfer (re_wal env wal_metadata)) st key local_wal_path
           in
           if \<not> success then apply_wal_loop H cfg env target_dt rest st1 applied_wals
           else
             (case datetime_gt (Aware (wal_end_ts wal_metadata)) target_dt of
                Inl e \<Rightarrow> apply_wal_loop H cfg env target_dt rest st1 applied_wals
              | Inr later \<Rightarrow>
                  if later then (st1, applied_wals)
                  else if apply_single_wal (re_wal env wal_metadata)
                  then apply_wal_loop H cfg env target_dt rest st1 (applied_wals @ [wal_filename])
                  else apply_wal_loop H cfg env target_dt rest st1 applied_wals)))"

definition apply_wal_files ::
  "(bytes \<Rightarrow> bytes) \<Rightarrow> (string \<Rightarrow> pydatetime option) \<Rightarrow> restore_config \<Rightarrow> restore_env \<Rightarrow> storage \<Rightarrow> ledger
     \<Rightarrow> string \<Rightarrow> string \<Rightarrow> storage \<times> string list \<times> bool" where
  "apply_wal_files H P cfg env st led bid target_text =
     (let wal_files = get_wals_for_backup led (re_wals_query_ok env) bid in
      if wal_files = [] then (st, [], True)
      else
        (case P target_text of
           None \<Rightarrow> (st, [], False)
         | Some target_dt \<Rightarrow>
             (let (st1, applied_wals) = apply_wal_loop H cfg env target_dt wal_files st []
              in (st1, applied_wals, True))))"

definition recovery_conf :: "string option \<Rightarrow> string" where
  "recovery_conf target_opt =
     ''restore_command = '' @ [CHR 0x27] @ ''cp /var/lib/postgresql/wal_archive/%f %p'' @ [CHR 0x27, CHR 0x0A]
     @ (case target_opt of
          None \<Rightarrow> []
        | Some t \<Rightarrow> if t = [] then []
                    else ''recovery_target_time = '' @ [CHR 0x27] @ t @ [CHR 0x27, CHR 0x0A]
                         @ ''recovery_target_inclusive = true'' @ [CHR 0x0A])
     @ ''standby_mode = on'' @ [CHR 0x0A]"

definition setup_recovery_config :: "restore_env \<Rightarrow> storage \<Rightarrow> string \<Rightarrow> string option \<Rightarrow> storage" where
  "setup_recovery_config env st destination target_opt =
     (if re_recovery_write_ok env
      then st\<lparr>files := (files st)(destination @ ''/recovery.conf'' \<mapsto> recovery_conf target_opt)\<rparr>
      else st)"

text \<open>
  \<open>_update_restore_status\<close> answers \<open>False\<close> for a refused statement; without a
  connection \<open>cursor\<close> was never bound and the \<open>finally\<close> clause raises
  \<open>UnboundLocalError\<close>.
\<close>

definition update_restore_status ::
  "ledger \<Rightarrow> db_outcome \<Rightarrow> string \<Rightarrow> string \<Rightarrow> int option \<Rightarrow> detail option \<Rightarrow> exn + ledger \<times> bool" where
  "update_restore_status led outcome rid new_status new_end_ts message_opt =
     (case outcome of
        Db_conn_error \<Rightarrow> Inl UnboundLocalError
      | Db_exec_error \<Rightarrow> Inr (led, False)
      | Db_ok \<Rightarrow>
          Inr (led\<lparr>restores :=
                  map (\<lambda>row. if restore_id row = rid
                             then (let r1 = row\<lparr>restore_status := new_status\<rparr>;
                                       r2 = (case new_end_ts of None \<Rightarrow> r1
                                             | Some t \<Rightarrow> r1\<lparr>restore_end_ts := Some t\<rparr>)
                                   in case message_opt of None \<Rightarrow> r2
                                      | Some m \<Rightarrow> r2\<lparr>error_message := Some m\<rparr>)
                             else row) (restores led)\<rparr>, True))"

definition nonempty :: "string option \<Rightarrow> string option" where
  "nonempty s = (case s of None \<Rightarrow> None | Some t \<Rightarrow> if t = [] then None else Some t)"

text \<open>
  \<open>restore_backup\<close> in its steps. \<open>resolve_backup\<close> picks the base backup and
  checks that it is completed; \<open>restore_base\<close> downloads, decompresses and applies
  the base artifact; \<open>restore_try\<close> is the body of the \<open>try\<close> block, \<open>Inl\<close> the
  exception that leaves it. The answer of \<open>_apply_wal_files\<close> only decides about a
  warning in the log.
\<close>

definition resolve_backup :: "restore_env \<Rightarrow> ledger \<Rightarrow> string option \<Rightarrow> exn + string \<times> backup_row" where
  "resolve_backup env led backup_id_opt =
     (case (case nonempty backup_id_opt of
              Some b \<Rightarrow> Some b
            | None \<Rightarrow> nonempty (find_latest_full_backup env led)) of
        None \<Rightarrow> Inl No_full_backup_found
      | Some bid \<Rightarrow>
          (case get_backup_by_id led (re_get_query_ok env) bid of
             None \<Rightarrow> Inl (Backup_not_found bid)
           | Some backup_metadata \<Rightarrow>
               if status backup_metadata \<noteq> ''completed'' then Inl (Backup_not_completed bid)
               else Inr (bid, backup_metadata)))"

definition restore_base ::
  "(bytes \<Rightarrow> bytes) \<Rightarrow> restore_config \<Rightarrow> restore_env \<Rightarrow> storage \<Rightarrow> backup_row \<Rightarrow> storage \<times> (exn + string)" where
  "restore_base H cfg env st backup_metadata =
     (case download_backup_file H cfg env st backup_metadata of
        (st1, None) \<Rightarrow> (st1, Inl Base_download_failed)
      | (st1, Some downloaded) \<Rightarrow>
          (case (if endswith downloaded ''.gz''
                 then (let decompressed_file = take (length downloaded - 3) downloaded in
                       case files st1 downloaded of
                         None \<Rightarrow> None
                       | Some packed \<Rightarrow>
                           (case re_gunzip env packed of
                              None \<Rightarrow> None
                            | Some raw \<Rightarrow>
                                Some (st1\<lparr>files := (files st1)(decompressed_file \<mapsto> raw,
                                                                 downloaded := None)\<rparr>,
                                      decompressed_file)))
                 else Some (st1, downloaded)) of
             None \<Rightarrow> (st1, Inl Decompress_failed)
           | Some (st2, backup_file) \<Rightarrow>
               if \<not> restore_base_backup env backup_file then (st2, Inl Base_restore_failed)
               else (st2, Inr backup_file)))"

definition restore_keys :: "string list" where
  "restore_keys =
     [''restore_id'', ''backup_id'', ''target_time'', ''status'', ''start_ts'', ''destination_path'']"

definition restore_try ::
  "(bytes \<Rightarrow> bytes) \<Rightarrow> (string \<Rightarrow> pydatetime option) \<Rightarrow> restore_config \<Rightarrow> restore_env \<Rightarrow> storage \<Rightarrow> ledger
     \<Rightarrow> string option \<Rightarrow> string option \<Rightarrow> string option
     \<Rightarrow> storage \<times> ledger \<times> (exn + bool \<times> detail)" where
  "restore_try H P cfg env st led backup_id_opt target_opt destination_opt =
     (case resolve_backup env led backup_id_opt of
        Inl e \<Rightarrow> (st, led, Inl e)
      | Inr (bid, backup_metadata) \<Rightarrow>
          if \<not> re_makedirs_ok env then (st, led, Inl OSError)
          else
            (let destination = (case nonempty destination_opt of
                                  None \<Rightarrow> rc_default_destination cfg
                                | Some d \<Rightarrow> d)
             in
             case (case nonempty target_opt of
                     None \<Rightarrow> Some None
                   | Some t \<Rightarrow> map_option Some (P t)) of
               None \<Rightarrow> (st, led, Inl ValueError)
             | Some target_dt_opt \<Rightarrow>
                 (case create_restore_record led (re_create env) restore_keys
                         \<lparr>restore_id = re_restore_id env, restore_backup_id = bid,
                          target_time = target_dt_opt, restore_status = ''running'',
                          restore_start_ts = re_start_time env, restore_end_ts = None,
                          destination_path = destination, error_message = None\<rparr> of
                    Inl e \<Rightarrow> (st, led, Inl e)
                  | Inr led1 \<Rightarrow>
                      (case restore_base H cfg env st backup_metadata of
                         (st2, Inl e) \<Rightarrow> (st2, led1, Inl e)
                       | (st2, Inr backup_file) \<Rightarrow>
                           (let st3 = (case nonempty target_opt of
                                         None \<Rightarrow> st2
                                       | Some t \<Rightarrow> fst (apply_wal_files H P cfg env st2 led1 bid t));
                                st4 = setup_recovery_config env st3 destination target_opt
                            in
                            case update_restore_status led1 (re_complete env) (re_restore_id env)
                                   ''completed'' (Some (re_end_time env)) None of
                              Inl e \<Rightarrow> (st4, led1, Inl e)
                            | Inr (led2, updated) \<Rightarrow>
                                (st4, led2, Inr (True, Ident (re_restore_id env))))))))"

definition restore_backup ::
  "(bytes \<Rightarrow> bytes) \<Rightarrow> (string \<Rightarrow> pydatetime option) \<Rightarrow> restore_config \<Rightarrow> restore_env \<Rightarrow> storage \<Rightarrow> ledger
     \<Rightarrow> string option \<Rightarrow> string option \<Rightarrow> string option
     \<Rightarrow> storage \<times> ledger \<times> (exn + bool \<times> detail)" where
  "restore_backup H P cfg env st led backup_id_opt target_opt destination_opt =
     (case restore_try H P cfg env st led backup_id_opt target_opt destination_opt of
        (st', led', Inr result) \<Rightarrow> (cleanup_temp_files (rc_temp_dir cfg) st', led', Inr result)
      | (st', led', Inl e) \<Rightarrow>
          (case update_restore_status led' (re_fail env) (re_restore_id env) ''failed''
                  (Some (re_fail_time env)) (Some (Exc_text e)) of
             Inl e2 \<Rightarrow> (cleanup_temp_files (rc_temp_dir cfg) st', led', Inl e2)
           | Inr (led'', updated) \<Rightarrow>
               (cleanup_temp_files (rc_temp_dir cfg) st', led'', Inr (False, Exc_text e))))"

text \<open>
  When \<open>download_file\<close> answers success, read off its branches: the object is there,
  \<open>head_object\<close> and the transfer go through, and the checksum kept in the object's
  metadata, if any, matches the received bytes. It depends on the bucket and not on the
  local files.
\<close>

definition download_succeeds :: "(bytes \<Rightarrow> bytes) \<Rightarrow> transfer_env \<Rightarrow> bucket \<Rightarrow> string \<Rightarrow> bool" where
  "download_succeeds H env objs key =
     (case objs key of
        None \<Rightarrow> False
      | Some obj \<Rightarrow>
          head_ok env \<and>
          (case get_object env (content obj) of
             None \<Rightarrow> False
           | Some received \<Rightarrow>
               (case map_of (metadata obj) ''checksum'' of
                  None \<Rightarrow> True
                | Some c \<Rightarrow> c = [] \<or> lower (hexdigest (H received)) = lower c)))"


definition wal_filename :: "wal_row \<Rightarrow> string" where
  "wal_filename w = (case wal_s3_key w of None \<Rightarrow> [] | Some key \<Rightarrow> basename key)"

section \<open>cli.py: prune\<close>

text \<open>
  \<open>retention_config\<close> is the dictionary after the rules of \<open>--policy\<close> were merged
  into it. \<open>now\<close> and the rows' \<open>start_ts\<close> are the readings, in microseconds, that
  remain once \<open>replace(tzinfo=None)\<close> has dropped the zone. \<open>timedelta.days\<close> rounds
  towards minus infinity, as \<open>div\<close> does. \<open>delete_ok\<close> tells for which keys the
  \<open>delete_object\<close> call goes through; \<open>delete_file\<close> swallows the others.
\<close>

record pruned_backup =
  pb_backup_id :: string
  pb_type :: string
  pb_age_days :: int
  pb_size_bytes :: "int option"

definition backup_age :: "int \<Rightarrow> backup_row \<Rightarrow> int" where
  "backup_age now backup = (now - start_ts backup) div 86400000000"

definition should_prune :: "(string \<rightharpoonup> int) \<Rightarrow> int \<Rightarrow> backup_row \<Rightarrow> bool" where
  "should_prune retention_config now backup =
     (if backup_type backup = ''full''
      then (let full_days = (case retention_config ''full_days'' of None \<Rightarrow> 30 | Some d \<Rightarrow> d)
            in backup_age now backup > full_days)
      else if backup_type backup = ''incremental''
      then (let inc_days = (case retention_config ''incremental_days'' of None \<Rightarrow> 7 | Some d \<Rightarrow> d)
            in backup_age now backup > inc_days)
      else False)"

fun prune_loop ::
  "(string \<rightharpoonup> int) \<Rightarrow> int \<Rightarrow> bool \<Rightarrow> (string \<Rightarrow> bool) \<Rightarrow> backup_row list \<Rightarrow> bucket \<Rightarrow> pruned_backup list
     \<Rightarrow> pruned_backup list \<times> bucket" where
  "prune_loop retention_config now dry_run delete_ok [] objs pruned_backups = (pruned_backups, objs)"
| "prune_loop retention_config now dry_run delete_ok (backup # rest) objs pruned_backups =
     (if should_prune retention_config now backup
      then (let pruned' = pruned_backups @ [\<lparr>pb_backup_id = backup_id backup,
                                             pb_type = backup_type backup,
                                             pb_age_days = backup_age now backup,
                                             pb_size_bytes = size_bytes backup\<rparr>];
                objs' = (if \<not> dry_run
                         then (case s3_key backup of
                                 None \<Rightarrow> objs
                               | Some key \<Rightarrow> if key = [] then objs
                                            else fst (delete_file (delete_ok key) objs key))
                         else objs)
            in prune_loop retention_config now dry_run delete_ok rest objs' pruned')
      else prune_loop retention_config now dry_run delete_ok rest objs pruned_backups)"

definition prune ::
  "(string \<rightharpoonup> int) \<Rightarrow> int \<Rightarrow> bool \<Rightarrow> (string \<Rightarrow> bool) \<Rightarrow> bool \<Rightarrow> ledger \<Rightarrow> bucket
     \<Rightarrow> pruned_backup list \<times> bucket" where
  "prune retention_config now dry_run delete_ok query_ok led objs =
     (let old_backups = list_backups led query_ok None None 1000
      in prune_loop retention_config now dry_run delete_ok old_backups objs [])"

text \<open>
  The retention policy in the words of the specification, for comparison with
  \<open>should_prune\<close>: days to keep per backup kind, 30 for full and 7 for incremental
  backups unless the policy says otherwise.
\<close>

definition retention_threshold :: "(string \<rightharpoonup> int) \<Rightarrow> string \<Rightarrow> int" where
  "retention_threshold policy kind =
     (if kind = ''full'' then (case policy ''full_days'' of None \<Rightarrow> 30 | Some d \<Rightarrow> d)
      else (case policy ''incremental_days'' of None \<Rightarrow> 7 | Some d \<Rightarrow> d))"

definition candidate :: "int \<Rightarrow> backup_row \<Rightarrow> pruned_backup" where
  "candidate now backup =
     \<lparr>pb_backup_id = backup_id backup, pb_type = backup_type backup,
      pb_age_days = backup_age now backup, pb_size_bytes = size_bytes backup\<rparr>"

section \<open>Segment names as base-16 numerals\<close>

text \<open>
  The specification's reading of a segment name, for comparison with
  \<open>extract_wal_sequence\<close>: the value of a string of hexadecimal digits, most significant
  digit first. \<open>is_upper_hex\<close> and \<open>is_lower_hex\<close> are the digits with the letters of
  one case.
\<close>

definition hex_char_value :: "char \<Rightarrow> nat" where
  "hex_char_value c =
     (let n = (of_char c :: nat) in
      if n \<le> 57 then n - 48 else if n \<le> 70 then n - 55 else n - 87)"

definition base16_value :: "string \<Rightarrow> nat" where
  "base16_value s = foldl (\<lambda>acc c. 16 * acc + hex_char_value c) 0 s"

definition is_upper_hex :: "char \<Rightarrow> bool" where
  "is_upper_hex c = (let n = (of_char c :: nat) in (48 \<le> n \<and> n \<le> 57) \<or> (65 \<le> n \<and> n \<le> 70))"

definition is_lower_hex :: "char \<Rightarrow> bool" where
  "is_lower_hex c = (let n = (of_char c :: nat) in (48 \<le> n \<and> n \<le> 57) \<or> (97 \<le> n \<and> n \<le> 102))"

definition is_hex :: "char \<Rightarrow> bool" where
  "is_hex c = (is_upper_hex c \<or> is_lower_hex c)"

definition one_case_hex :: "string \<Rightarrow> string \<Rightarrow> bool" where
  "one_case_hex xs ys =
     (list_all is_upper_hex (xs @ ys) \<or> list_all is_lower_hex (xs @ ys))"

section \<open>Example values\<close>

text \<open>Concrete rows, ledgers and environments on which the theorems below are exercised.\<close>

definition day :: int where
  "day = 86400000000"

definition example_row :: "string \<Rightarrow> string \<Rightarrow> string \<Rightarrow> int \<Rightarrow> string option \<Rightarrow> backup_row" where
  "example_row bid kind st started key =
     \<lparr>backup_id = bid, backup_type = kind, status = st, start_ts = started, end_ts = None,
      size_bytes = Some 100, s3_key = key, s3_bucket = None,
      checksum = (case key of None \<Rightarrow> None | Some k \<Rightarrow> Some ''4a''),
      compression = None, row_encryption = None, label = None\<rparr>"

definition prune_ledger :: ledger where
  "prune_ledger =
     \<lparr>backups = [example_row ''a'' ''full'' ''completed'' (9 * day) (Some ''k/a''),
                 example_row ''b'' ''full'' ''completed'' (11 * day) (Some ''k/b''),
                 example_row ''c'' ''incremental'' ''completed'' (32 * day) (Some ''k/c'')],
      wals = [], restores = []\<rparr>"

definition example_object :: s3_object where
  "example_object = \<lparr>content = ''J'', metadata = [(''checksum'', ''4a'')], sse = None, sse_kms_key = None\<rparr>"

definition prune_bucket :: bucket where
  "prune_bucket = [''k/a'' \<mapsto> example_object, ''k/b'' \<mapsto> example_object, ''k/c'' \<mapsto> example_object]"

definition ok_transfer :: transfer_env where
  "ok_transfer = \<lparr>utc_date = ''2024/01/02'', utc_iso = ''2024-01-02T03:04:05'',
                   put_object = Some, get_object = Some, head_ok = True, remove_ok = True\<rparr>"

definition failing_transfer :: transfer_env where
  "failing_transfer = ok_transfer\<lparr>put_object := (\<lambda>b. None), get_object := (\<lambda>b. None)\<rparr>"

definition example_config :: engine_config where
  "example_config =
     \<lparr>s3_cfg = \<lparr>prefix = ''backups'', encryption = ''SSE-S3'', kms_key_id = None\<rparr>,
      bucket_name = Some ''bucket'', compression_enabled = False,
      wal_directory = ''/wal'', temp_dir = ''/tmp/b''\<rparr>"

definition wal_storage :: storage where
  "wal_storage =
     \<lparr>objects = Map.empty,
      files = [''/wal/00000000000000000000A.gz'' \<mapsto> ''J'',
               ''/wal/00000000000000000000B.gz'' \<mapsto> ''K'']\<rparr>"

definition example_incr_env :: incr_env where
  "example_incr_env =
     \<lparr>ie_backup_id = ''id-1'', ie_start_time = 5 * day, ie_stamp = ''20240102-030405'',
      ie_listing = Some [''00000000000000000000B.gz'', ''notes.txt'', ''00000000000000000000A.gz''],
      ie_segment = (\<lambda>f. \<lparr>seg_transfer = (if f = ''/wal/00000000000000000000A.gz''
                                            then failing_transfer else ok_transfer),
                          seg_end_ts = 5 * day + 1, seg_db = Db_ok\<rparr>),
      ie_end_time = 5 * day + 2, ie_create = Db_ok\<rparr>"

definition empty_ledger :: ledger where
  "empty_ledger = \<lparr>backups = [], wals = [], restores = []\<rparr>"

definition ledger_with_id :: ledger where
  "ledger_with_id = \<lparr>backups = [example_row ''id-1'' ''full'' ''running'' (4 * day) None],
                      wals = [], restores = []\<rparr>"

definition example_full_env :: full_env where
  "example_full_env =
     \<lparr>fe_backup_id = ''id-2'', fe_start_time = 5 * day, fe_stamp = ''20240102-030405'',
      fe_create = Db_ok, fe_dump_exit = Some 0, fe_dump_output = Some ''J'',
      fe_gzip = (\<lambda>b. Some b), fe_transfer = ok_transfer, fe_end_time = 5 * day + 3,
      fe_complete = Db_ok, fe_fail_time = 5 * day + 4, fe_fail = Db_ok\<rparr>"

definition empty_storage :: storage where
  "empty_storage = \<lparr>objects = Map.empty, files = Map.empty\<rparr>"

definition completed_without_key :: ledger where
  "completed_without_key =
     \<lparr>backups = [example_row ''id-1'' ''full'' ''completed'' (4 * day) None],
      wals = [], restores = []\<rparr>"

definition example_wal :: "string \<Rightarrow> int \<Rightarrow> int \<Rightarrow> wal_row" where
  "example_wal name seq ended =
     \<lparr>wal_name = name, wal_backup_id = ''id-1'', wal_start_ts = 4 * day, wal_end_ts = ended,
      wal_size_bytes = Some 1, wal_s3_key = Some (''k/'' @ name), wal_checksum = Some ''4a'',
      sequence_number = seq\<rparr>"

definition ledger_with_equal_sequences :: ledger where
  "ledger_with_equal_sequences =
     ledger_with_id\<lparr>wals := [example_wal ''0000000000000000000zz.gz'' 0 (4 * day + 1),
                               example_wal ''0000000000000000000yy.gz'' 0 (4 * day + 2)]\<rparr>"









section \<open>Checksum comparison\<close>

lemma of_char_lower_char:
  "(of_char (lower_char c) :: nat) = (if is_upper c then of_char c + 32 else of_char c)"
  by (simp add: lower_char_def is_upper_def)

lemma lower_char_eq_iff: "lower_char a = lower_char b \<longleftrightarrow> case_variant a b"
proof -
  have "lower_char a = lower_char b \<longleftrightarrow> (of_char (lower_char a) :: nat) = of_char (lower_char b)"
    by simp
  also have "\<dots> \<longleftrightarrow> case_variant a b"
    unfolding of_char_lower_char case_variant_def
    using of_char_eq_iff [of a b, where ?'a = nat]
    by (auto simp: is_upper_def)
  finally show ?thesis .
qed

lemma of_char_hex_digit:
  "n < 16 \<Longrightarrow> (of_char (hex_digit n) :: nat) = (if n < 10 then 48 + n else 87 + n)"
  by (simp add: hex_digit_def)

lemma of_char_upper_char:
  "(of_char (upper_char c) :: nat) = (if is_lower c then of_char c - 32 else of_char c)"
  by (auto simp: upper_char_def is_lower_def)

lemma hex_digit_not_upper: "n < 16 \<Longrightarrow> \<not> is_upper (hex_digit n)"
  by (simp add: is_upper_def of_char_hex_digit)

lemma lower_hex_digit: "n < 16 \<Longrightarrow> lower_char (hex_digit n) = hex_digit n"
  by (simp add: lower_char_def hex_digit_not_upper)

lemma nibbles_less_16: "(of_char b :: nat) div 16 < 16" "(of_char b :: nat) mod 16 < 16"
  using of_char_mod_256 [of b, where ?'a = nat] by (simp_all add: less_mult_imp_div_less) 

lemma lower_hexdigest: "lower (hexdigest bs) = hexdigest bs"
  by (induction bs) (simp_all add: lower_def hexdigest_def lower_hex_digit nibbles_less_16)

lemma lower_eq_iff: "lower xs = lower ys \<longleftrightarrow> eq_ignoring_case xs ys"
proof -
  have "lower xs = lower ys \<longleftrightarrow> list_all2 (=) (map lower_char xs) (map lower_char ys)"
    by (simp add: lower_def list.rel_eq)
  also have "\<dots> \<longleftrightarrow> list_all2 (\<lambda>a b. lower_char a = lower_char b) xs ys"
    by (simp add: list.rel_map)
  finally show ?thesis
    by (simp add: eq_ignoring_case_def lower_char_eq_iff [abs_def])
qed

lemma lower_upper_hex: "n < 16 \<Longrightarrow> lower_char (upper_char (hex_digit n)) = hex_digit n"
proof -
  assume n: "n < 16"
  have "(of_char (lower_char (upper_char (hex_digit n))) :: nat) = of_char (hex_digit n)"
    unfolding of_char_lower_char
    using n by (simp add: is_upper_def is_lower_def of_char_upper_char of_char_hex_digit)
  then show ?thesis by simp
qed

lemma lower_upper_hexdigest: "lower (upper (hexdigest bs)) = hexdigest bs"
  by (induction bs) (simp_all add: lower_def upper_def hexdigest_def lower_upper_hex nibbles_less_16)

text \<open>
  C10. \<open>verify_checksum\<close> compares the freshly computed hexadecimal digest with
  the expected string after lower-casing both: on a readable file it answers exactly
  whether the two strings are equal up to ASCII letter case (position by position, equal
  characters or an upper-case letter and its lower-case form), so the upper-case spelling
  of the digest still verifies.
\<close>

theorem verify_checksum_case_insensitive:
  assumes "fs file_path = Some data"
  shows "verify_checksum H fs file_path expected
           = Inr (eq_ignoring_case (hexdigest (H data)) expected)
         \<and> verify_checksum H fs file_path (upper (hexdigest (H data))) = Inr True"
  using assms
  by (simp add: verify_checksum_def calculate_checksum_def lower_eq_iff [symmetric]
        lower_upper_hexdigest lower_hexdigest)

theorem verify_checksum_case_insensitive_witness:
  "verify_checksum (\<lambda>b. b) [''f'' \<mapsto> ''J''] ''f'' ''4A'' = Inr True
   \<and> eq_ignoring_case (hexdigest ''J'') ''4A''
   \<and> verify_checksum (\<lambda>b. b) [''f'' \<mapsto> ''J''] ''f'' ''4B'' = Inr False"
proof -
  have a: "eq_ignoring_case (hexdigest ''J'') ''4A''"
    by code_simp
  have b: "\<not> eq_ignoring_case (hexdigest ''J'') ''4B''"
    by code_simp
  show ?thesis
    using verify_checksum_case_insensitive [of "[''f'' \<mapsto> ''J'']" "''f''" "''J''" "\<lambda>b. b" "''4A''"]
          verify_checksum_case_insensitive [of "[''f'' \<mapsto> ''J'']" "''f''" "''J''" "\<lambda>b. b" "''4B''"]
    by (simp add: a b)
qed

section \<open>Write-then-verify upload\<close>

lemma verify_upload_result:
  assumes "objects st key = Some obj"
  shows "snd (verify_upload H env st local_path key expected) =
           (case get_object env (content obj) of
              None \<Rightarrow> False
            | Some received \<Rightarrow> remove_ok env \<and> lower (hexdigest (H received)) = lower expected)"
  using assms
  by (simp add: verify_upload_def verify_checksum_def calculate_checksum_def Let_def
        split: option.splits)

lemma verify_upload_objects:
  "objects (fst (verify_upload H env st local_path key expected)) = objects st"
  by (simp add: verify_upload_def verify_checksum_def calculate_checksum_def Let_def
        split: option.splits sum.splits)

lemma upload_file_result:
  "fst (snd (upload_file H cfg env st local_path kind filename_opt)) =
     (case files st local_path of
        None \<Rightarrow> False
      | Some sent \<Rightarrow>
          (case put_object env sent of
             None \<Rightarrow> False
           | Some stored \<Rightarrow>
               (case get_object env stored of
                  None \<Rightarrow> False
                | Some received \<Rightarrow>
                    remove_ok env \<and> hexdigest (H received) = hexdigest (H sent))))"
proof (cases "files st local_path")
  case None
  then show ?thesis
    by (simp add: upload_file_def calculate_checksum_def)
next
  case (Some sent)
  note sent = this
  show ?thesis
  proof (cases "put_object env sent")
    case None
    with sent show ?thesis
      by (simp add: upload_file_def calculate_checksum_def)
  next
    case (Some stored)
    let ?key = "get_s3_key cfg env kind (upload_filename local_path filename_opt)"
    let ?obj = "(extra_args cfg env (upload_filename local_path filename_opt)
                   (hexdigest (H sent)) kind)\<lparr>content := stored\<rparr>"
    let ?st1 = "st\<lparr>objects := (objects st)(?key \<mapsto> ?obj)\<rparr>"
    have v: "snd (verify_upload H env ?st1 local_path ?key (hexdigest (H sent))) =
               (case get_object env stored of
                  None \<Rightarrow> False
                | Some received \<Rightarrow> remove_ok env \<and> hexdigest (H received) = hexdigest (H sent))"
      by (subst verify_upload_result [where obj = ?obj])
         (simp_all add: lower_hexdigest split: option.splits)
    from sent Some show ?thesis
      by (simp add: upload_file_def calculate_checksum_def Let_def v [symmetric]
            split: prod.splits)
  qed
qed

lemma upload_file_objects:
  assumes "files st local_path = Some sent" and "put_object env sent = Some stored"
  shows "\<exists>obj. objects (fst (upload_file H cfg env st local_path kind filename_opt))
                  (get_s3_key cfg env kind (upload_filename local_path filename_opt)) = Some obj
               \<and> content obj = stored"
proof -
  let ?key = "get_s3_key cfg env kind (upload_filename local_path filename_opt)"
  let ?obj = "(extra_args cfg env (upload_filename local_path filename_opt)
                 (hexdigest (H sent)) kind)\<lparr>content := stored\<rparr>"
  let ?st1 = "st\<lparr>objects := (objects st)(?key \<mapsto> ?obj)\<rparr>"
  have "objects (fst (upload_file H cfg env st local_path kind filename_opt))
          = objects (fst (verify_upload H env ?st1 local_path ?key (hexdigest (H sent))))"
    using assms
    by (simp add: upload_file_def calculate_checksum_def Let_def split: prod.splits)
  then show ?thesis
    by (simp add: verify_upload_objects)
qed

text \<open>
  C4. \<open>upload_file\<close> declares success only when the object it has just written was
  downloaded again and the checksum recomputed over the downloaded bytes equals the
  checksum computed locally before the transfer; when the two checksums disagree the
  result is a failure although the object is in the bucket under the key.
\<close>

theorem upload_file_write_then_verify:
  "(fst (snd (upload_file H cfg env st local_path kind filename_opt)) \<longrightarrow>
      (\<exists>sent stored received.
          files st local_path = Some sent \<and> put_object env sent = Some stored \<and>
          get_object env stored = Some received \<and>
          hexdigest (H received) = hexdigest (H sent)))
   \<and> (\<forall>sent stored received.
          files st local_path = Some sent \<and> put_object env sent = Some stored \<and>
          get_object env stored = Some received \<and>
          hexdigest (H received) \<noteq> hexdigest (H sent) \<longrightarrow>
          \<not> fst (snd (upload_file H cfg env st local_path kind filename_opt)) \<and>
          (\<exists>obj. objects (fst (upload_file H cfg env st local_path kind filename_opt))
                    (get_s3_key cfg env kind (upload_filename local_path filename_opt)) = Some obj
                 \<and> content obj = stored))"
proof (intro conjI allI impI)
  assume "fst (snd (upload_file H cfg env st local_path kind filename_opt))"
  then show "\<exists>sent stored received.
          files st local_path = Some sent \<and> put_object env sent = Some stored \<and>
          get_object env stored = Some received \<and>
          hexdigest (H received) = hexdigest (H sent)"
    unfolding upload_file_result by (auto split: option.splits)
next
  fix sent stored received
  assume a: "files st local_path = Some sent \<and> put_object env sent = Some stored \<and>
          get_object env stored = Some received \<and>
          hexdigest (H received) \<noteq> hexdigest (H sent)"
  then show "\<not> fst (snd (upload_file H cfg env st local_path kind filename_opt))"
    unfolding upload_file_result by simp
  from a show "\<exists>obj. objects (fst (upload_file H cfg env st local_path kind filename_opt))
                    (get_s3_key cfg env kind (upload_filename local_path filename_opt)) = Some obj
                 \<and> content obj = stored"
    using upload_file_objects by blast
qed

theorem upload_file_write_then_verify_witness:
  "fst (snd (upload_file (\<lambda>b. b) \<lparr>prefix = ''backups'', encryption = ''SSE-S3'', kms_key_id = None\<rparr>
        \<lparr>utc_date = ''2024/01/02'', utc_iso = ''2024-01-02T03:04:05'',
          put_object = Some, get_object = Some, head_ok = True, remove_ok = True\<rparr>
        \<lparr>objects = Map.empty, files = [''/w/a'' \<mapsto> ''J'']\<rparr> ''/w/a'' ''full'' None))
   \<and> \<not> fst (snd (upload_file (\<lambda>b. b) \<lparr>prefix = ''backups'', encryption = ''SSE-S3'', kms_key_id = None\<rparr>
        \<lparr>utc_date = ''2024/01/02'', utc_iso = ''2024-01-02T03:04:05'',
          put_object = Some, get_object = (\<lambda>b. Some ''K''), head_ok = True, remove_ok = True\<rparr>
        \<lparr>objects = Map.empty, files = [''/w/a'' \<mapsto> ''J'']\<rparr> ''/w/a'' ''full'' None))
   \<and> (\<exists>obj. objects (fst (upload_file (\<lambda>b. b) \<lparr>prefix = ''backups'', encryption = ''SSE-S3'', kms_key_id = None\<rparr>
        \<lparr>utc_date = ''2024/01/02'', utc_iso = ''2024-01-02T03:04:05'',
          put_object = Some, get_object = (\<lambda>b. Some ''K''), head_ok = True, remove_ok = True\<rparr>
        \<lparr>objects = Map.empty, files = [''/w/a'' \<mapsto> ''J'']\<rparr> ''/w/a'' ''full'' None))
          ''backups/full/2024/01/02/a'' = Some obj \<and> content obj = ''J'')"
proof -
  have ne: "hexdigest ''K'' \<noteq> hexdigest ''J''"
    by code_simp
  have key: "get_s3_key \<lparr>prefix = ''backups'', encryption = ''SSE-S3'', kms_key_id = None\<rparr>
        \<lparr>utc_date = ''2024/01/02'', utc_iso = ''2024-01-02T03:04:05'',
          put_object = Some, get_object = (\<lambda>b. Some ''K''), head_ok = True, remove_ok = True\<rparr>
        ''full'' (upload_filename ''/w/a'' None) = ''backups/full/2024/01/02/a''"
    by (simp add: get_s3_key_def upload_filename_def basename_def)
  have good: "fst (snd (upload_file (\<lambda>b. b) \<lparr>prefix = ''backups'', encryption = ''SSE-S3'', kms_key_id = None\<rparr>
        \<lparr>utc_date = ''2024/01/02'', utc_iso = ''2024-01-02T03:04:05'',
          put_object = Some, get_object = Some, head_ok = True, remove_ok = True\<rparr>
        \<lparr>objects = Map.empty, files = [''/w/a'' \<mapsto> ''J'']\<rparr> ''/w/a'' ''full'' None))"
    by (simp add: upload_file_result)
  show ?thesis
    using good ne
      upload_file_write_then_verify [of "\<lambda>b. b" "\<lparr>prefix = ''backups'', encryption = ''SSE-S3'', kms_key_id = None\<rparr>"
        "\<lparr>utc_date = ''2024/01/02'', utc_iso = ''2024-01-02T03:04:05'',
          put_object = Some, get_object = (\<lambda>b. Some ''K''), head_ok = True, remove_ok = True\<rparr>"
        "\<lparr>objects = Map.empty, files = [''/w/a'' \<mapsto> ''J'']\<rparr>" "''/w/a''" "''full''" None]
    by (simp add: key)
qed


section \<open>Retention and pruning\<close>

lemma prune_loop_candidates:
  "fst (prune_loop policy now dry_run delete_ok rows objs acc) =
     acc @ map (candidate now) (filter (should_prune policy now) rows)"
  by (induction rows arbitrary: objs acc) (simp_all add: Let_def candidate_def)

lemma prune_loop_dry_run:
  "snd (prune_loop policy now True delete_ok rows objs acc) = objs"
  by (induction rows arbitrary: acc) (simp_all add: Let_def)

lemma should_prune_threshold:
  "backup_type b = ''full'' \<or> backup_type b = ''incremental'' \<Longrightarrow>
     should_prune policy now b \<longleftrightarrow> retention_threshold policy (backup_type b) < backup_age now b"
  by (auto simp: should_prune_def retention_threshold_def)

text \<open>
  C8. Every record that \<open>prune\<close> scans and whose kind is full or incremental is put on
  the candidate list exactly when its age in whole days is strictly greater than the
  retention threshold of its kind, 30 days for full and 7 days for incremental backups
  by default; a full record of age \<open>full_days + 1\<close> is selected and one of age
  \<open>full_days - 1\<close> is not.
\<close>

theorem prune_selects_older_than_retention:
  "((\<forall>b \<in> set (list_backups led query_ok None None 1000).
        backup_type b = ''full'' \<or> backup_type b = ''incremental'') \<longrightarrow>
      fst (prune policy now dry_run delete_ok query_ok led objs) =
        map (candidate now)
          (filter (\<lambda>b. retention_threshold policy (backup_type b) < backup_age now b)
             (list_backups led query_ok None None 1000)))
   \<and> retention_threshold Map.empty ''full'' = 30
   \<and> retention_threshold Map.empty ''incremental'' = 7
   \<and> (backup_type r = ''full'' \<and> backup_age now r = retention_threshold policy ''full'' + 1
         \<longrightarrow> should_prune policy now r)
   \<and> (backup_type r = ''full'' \<and> backup_age now r = retention_threshold policy ''full'' - 1
         \<longrightarrow> \<not> should_prune policy now r)"
proof (intro conjI impI)
  assume kinds: "\<forall>b \<in> set (list_backups led query_ok None None 1000).
        backup_type b = ''full'' \<or> backup_type b = ''incremental''"
  have "filter (should_prune policy now) (list_backups led query_ok None None 1000) =
        filter (\<lambda>b. retention_threshold policy (backup_type b) < backup_age now b)
          (list_backups led query_ok None None 1000)"
    using kinds by (intro filter_cong refl) (simp add: should_prune_threshold)
  then show "fst (prune policy now dry_run delete_ok query_ok led objs) =
        map (candidate now)
          (filter (\<lambda>b. retention_threshold policy (backup_type b) < backup_age now b)
             (list_backups led query_ok None None 1000))"
    by (simp add: prune_def prune_loop_candidates)
next
  show "retention_threshold Map.empty ''full'' = 30"
    by (simp add: retention_threshold_def)
  show "retention_threshold Map.empty ''incremental'' = 7"
    by (simp add: retention_threshold_def)
next
  assume "backup_type r = ''full'' \<and> backup_age now r = retention_threshold policy ''full'' + 1"
  then show "should_prune policy now r"
    by (simp add: should_prune_threshold)
next
  assume "backup_type r = ''full'' \<and> backup_age now r = retention_threshold policy ''full'' - 1"
  then show "\<not> should_prune policy now r"
    by (simp add: should_prune_threshold)
qed

text \<open>
  C9. On the same ledger, policy and clock reading, \<open>prune\<close> in dry-run mode reports
  the candidate list (identifier, kind, age, size) that it reports otherwise, and in
  dry-run mode it deletes nothing: the bucket is left as it was.
\<close>

theorem prune_dry_run_same_candidates_no_deletion:
  "fst (prune policy now True delete_ok query_ok led objs) =
     fst (prune policy now False delete_ok query_ok led objs)
   \<and> snd (prune policy now True delete_ok query_ok led objs) = objs"
  by (simp add: prune_def prune_loop_candidates prune_loop_dry_run)

lemma prune_ledger_scan:
  "list_backups prune_ledger True None None 1000 =
     [example_row ''c'' ''incremental'' ''completed'' (32 * day) (Some ''k/c''),
      example_row ''b'' ''full'' ''completed'' (11 * day) (Some ''k/b''),
      example_row ''a'' ''full'' ''completed'' (9 * day) (Some ''k/a'')]"
  by (simp add: list_backups_def prune_ledger_def example_row_def day_def)

theorem prune_selects_older_than_retention_witness:
  "map pb_backup_id (fst (prune Map.empty (40 * day) False (\<lambda>k. True) True prune_ledger prune_bucket))
     = [''c'', ''a'']
   \<and> should_prune Map.empty (40 * day) (example_row ''a'' ''full'' ''completed'' (9 * day) (Some ''k/a''))
   \<and> \<not> should_prune Map.empty (40 * day) (example_row ''b'' ''full'' ''completed'' (11 * day) (Some ''k/b''))"
  using prune_selects_older_than_retention
          [of prune_ledger True Map.empty "40 * day" False "\<lambda>k. True" prune_bucket
              "example_row ''a'' ''full'' ''completed'' (9 * day) (Some ''k/a'')"]
        prune_selects_older_than_retention
          [of prune_ledger True Map.empty "40 * day" False "\<lambda>k. True" prune_bucket
              "example_row ''b'' ''full'' ''completed'' (11 * day) (Some ''k/b'')"]
  by (simp add: prune_ledger_scan retention_threshold_def backup_age_def candidate_def
        example_row_def day_def)

theorem prune_dry_run_same_candidates_no_deletion_witness:
  "map pb_backup_id (fst (prune Map.empty (40 * day) True (\<lambda>k. True) True prune_ledger prune_bucket))
     = [''c'', ''a'']
   \<and> snd (prune Map.empty (40 * day) True (\<lambda>k. True) True prune_ledger prune_bucket) = prune_bucket
   \<and> snd (prune Map.empty (40 * day) False (\<lambda>k. True) True prune_ledger prune_bucket) ''k/a'' = None"
proof -
  have sel: "filter (should_prune Map.empty (40 * day)) (list_backups prune_ledger True None None 1000) =
      [example_row ''c'' ''incremental'' ''completed'' (32 * day) (Some ''k/c''),
       example_row ''a'' ''full'' ''completed'' (9 * day) (Some ''k/a'')]"
    by (simp add: prune_ledger_scan should_prune_def backup_age_def example_row_def day_def)
  have del: "snd (prune Map.empty (40 * day) False (\<lambda>k. True) True prune_ledger prune_bucket) ''k/a'' = None"
    by (simp add: prune_def prune_ledger_scan should_prune_def backup_age_def example_row_def
          day_def delete_file_def prune_bucket_def Let_def)
  show ?thesis
    using prune_dry_run_same_candidates_no_deletion
            [of Map.empty "40 * day" "\<lambda>k. True" True prune_ledger prune_bucket] del
    by (simp add: prune_def prune_loop_candidates sel candidate_def example_row_def)
qed


section \<open>Incremental backup and the WAL rows\<close>

lemma create_wal_record_Inr:
  "create_wal_record led outcome d = Inr led' \<longleftrightarrow>
     outcome = Db_ok \<and> backup_exists led (wal_backup_id d) \<and> is_bigint (sequence_number d)
     \<and> led' = led\<lparr>wals := wals led @ [d]\<rparr>"
  by (cases outcome) (auto simp: create_wal_record_def)

lemma backup_exists_wals_update [simp]:
  "backup_exists (led\<lparr>wals := ws\<rparr>) bid = backup_exists led bid"
  by (simp add: backup_exists_def)

lemma wal_data_of_simps [simp]:
  "wal_name (wal_data_of env f key csum n) = basename f"
  "wal_backup_id (wal_data_of env f key csum n) = ie_backup_id env"
  "sequence_number (wal_data_of env f key csum n) = extract_wal_sequence (basename f)"
  "wal_end_ts (wal_data_of env f key csum n) = seg_end_ts (ie_segment env f)"
  by (simp_all add: wal_data_of_def)

lemma process_one_wal_Some:
  assumes "process_one_wal H cfg env st led f = (st1, Some led1)"
  shows "\<exists>key csum n. led1 = led\<lparr>wals := wals led @ [wal_data_of env f key csum n]\<rparr>
           \<and> seg_db (ie_segment env f) = Db_ok
           \<and> backup_exists led (ie_backup_id env)
           \<and> is_bigint (extract_wal_sequence (basename f))
           \<and> fst (snd (upload_file H (s3_cfg cfg) (seg_transfer (ie_segment env f)) st f
                            ''incremental'' (Some (basename f))))"
  using assms
  by (auto simp: process_one_wal_def Let_def create_wal_record_Inr
        split: prod.splits if_splits detail.splits sum.splits option.splits)


lemma process_wal_files_ledger:
  "process_wal_files H cfg env fs st led u = (st', led', u') \<Longrightarrow>
     backups led' = backups led \<and> restores led' = restores led \<and>
     (\<exists>new. wals led' = wals led @ new \<and> u' = u @ map wal_name new \<and> new_rows_ok env led new)"
proof (induction fs arbitrary: st led u)
  case Nil
  then show ?case by (auto simp: new_rows_ok_def)
next
  case (Cons f rest)
  obtain st1 r where one: "process_one_wal H cfg env st led f = (st1, r)"
    by (cases "process_one_wal H cfg env st led f") auto
  show ?case
  proof (cases r)
    case None
    with one Cons.prems have "process_wal_files H cfg env rest st1 led u = (st', led', u')" by simp
    from Cons.IH [OF this] show ?thesis .
  next
    case (Some led1)
    from process_one_wal_Some [OF one [unfolded Some]] obtain key csum n where
      d: "led1 = led\<lparr>wals := wals led @ [wal_data_of env f key csum n]\<rparr>"
      and ok: "backup_exists led (ie_backup_id env)" "is_bigint (extract_wal_sequence (basename f))"
      by blast
    let ?d = "wal_data_of env f key csum n"
    from one Some Cons.prems
    have "process_wal_files H cfg env rest st1 led1 (u @ [basename f]) = (st', led', u')" by simp
    from Cons.IH [OF this] obtain new where
      n: "backups led' = backups led1" "restores led' = restores led1"
         "wals led' = wals led1 @ new" "u' = (u @ [basename f]) @ map wal_name new"
         "new_rows_ok env led1 new"
      by auto
    have "wals led' = wals led @ (?d # new)" "u' = u @ map wal_name (?d # new)"
      using n(3,4) d by simp_all
    moreover have "new_rows_ok env led (?d # new)"
      using n(5) ok d by (auto simp: new_rows_ok_def)
    moreover have "backups led' = backups led" "restores led' = restores led"
      using n(1,2) d by simp_all
    ultimately show ?thesis by blast
  qed
qed


lemma ledger_eqI:
  "backups a = backups b \<Longrightarrow> wals a = wals b \<Longrightarrow> restores a = restores b \<Longrightarrow> (a :: ledger) = b"
  by simp

lemma process_wal_files_fresh:
  assumes "\<not> backup_exists led (ie_backup_id env)"
  shows "fst (snd (process_wal_files H cfg env fs st led u)) = led
         \<and> snd (snd (process_wal_files H cfg env fs st led u)) = u"
proof -
  obtain st' led' u' where r: "process_wal_files H cfg env fs st led u = (st', led', u')"
    by (cases "process_wal_files H cfg env fs st led u") auto
  from process_wal_files_ledger [OF r] obtain new where
    n: "backups led' = backups led" "restores led' = restores led"
       "wals led' = wals led @ new" "u' = u @ map wal_name new" "new_rows_ok env led new"
    by blast
  from n(5) assms have "new = []" by (auto simp: new_rows_ok_def)
  with n r show ?thesis by (simp add: ledger_eqI)
qed

lemma create_backup_record_Inr:
  "create_backup_record led outcome dict_keys d = Inr led' \<longleftrightarrow>
     outcome = Db_ok \<and> carries dict_keys backup_insert_parameters
     \<and> \<not> backup_exists led (backup_id d) \<and> led' = led\<lparr>backups := backups led @ [d]\<rparr>"
  by (cases outcome) (auto simp: create_backup_record_def)

lemma marker_insert_fails:
  "create_backup_record led outcome marker_keys d =
     Inl (if outcome = Db_conn_error then UnboundLocalError else KeyError)"
  by (simp add: create_backup_record_def carries_def marker_keys_def backup_insert_parameters_def)

text \<open>
  No run of \<open>create_incremental_backup\<close> ends in success. The batch marker is
  inserted after the loop, so with the foreign key on \<open>wal_metadata.backup_id\<close> a WAL
  row is only written when the identifier was in \<open>backup_metadata\<close> before the run;
  and the dictionary of the marker lacks six named parameters of the \<open>INSERT\<close>, so
  that statement raises whenever it is reached.
\<close>

lemma incremental_backup_never_succeeds:
  "\<not> fst (snd (snd (create_incremental_backup H cfg env st led label_opt)))"
  by (simp add: create_incremental_backup_def Let_def marker_insert_fails split: prod.splits)

lemma incremental_backup_ledger:
  "fst (snd (create_incremental_backup H cfg env st led label_opt)) =
     (if get_wal_files (wal_directory cfg) (ie_listing env) (files st) = [] then led
      else fst (snd (process_wal_files H cfg env
                       (get_wal_files (wal_directory cfg) (ie_listing env) (files st)) st led [])))"
  by (simp add: create_incremental_backup_def Let_def marker_insert_fails split: prod.splits)

text \<open>
  C1. Every row that an incremental backup adds to \<open>wal_metadata\<close> names the run's
  identifier, and that identifier was in \<open>backup_metadata\<close> before the row was
  written: \<open>create_wal_record\<close> adds a row only when its parent row exists (the foreign
  key of the schema), and a ledger in which every WAL row has its parent is left by
  \<open>create_incremental_backup\<close> in the same condition.
\<close>

theorem incremental_wal_rows_have_parent:
  "(create_wal_record led outcome d = Inr led1 \<longrightarrow> backup_exists led (wal_backup_id d))
   \<and> (\<exists>new. wals (fst (snd (create_incremental_backup H cfg env st led label_opt))) = wals led @ new
            \<and> (\<forall>w \<in> set new. wal_backup_id w = ie_backup_id env \<and> backup_exists led (wal_backup_id w)))
   \<and> ((\<forall>w \<in> set (wals led). backup_exists led (wal_backup_id w)) \<longrightarrow>
        (\<forall>w \<in> set (wals (fst (snd (create_incremental_backup H cfg env st led label_opt)))).
            backup_exists (fst (snd (create_incremental_backup H cfg env st led label_opt)))
              (wal_backup_id w)))"
proof -
  let ?fs = "get_wal_files (wal_directory cfg) (ie_listing env) (files st)"
  let ?led' = "fst (snd (create_incremental_backup H cfg env st led label_opt))"
  obtain st1 led1' u1 where r: "process_wal_files H cfg env ?fs st led [] = (st1, led1', u1)"
    by (cases "process_wal_files H cfg env ?fs st led []") auto
  from process_wal_files_ledger [OF r] obtain new where
    n: "backups led1' = backups led" "wals led1' = wals led @ new" "new_rows_ok env led new"
    by blast
  have w: "wals ?led' = wals led @ new \<or> wals ?led' = wals led"
    using r n(2) by (simp add: incremental_backup_ledger)
  have b: "set (map backup_id (backups led)) \<subseteq> set (map backup_id (backups ?led'))"
    using r n(1) by (simp add: incremental_backup_ledger)
  have new_ok: "\<forall>w \<in> set new. wal_backup_id w = ie_backup_id env \<and> backup_exists led (wal_backup_id w)"
    using n(3) by (auto simp: new_rows_ok_def)
  have 1: "create_wal_record led outcome d = Inr led1 \<longrightarrow> backup_exists led (wal_backup_id d)"
    by (simp add: create_wal_record_Inr)
  have 2: "\<exists>new. wals ?led' = wals led @ new
            \<and> (\<forall>w \<in> set new. wal_backup_id w = ie_backup_id env \<and> backup_exists led (wal_backup_id w))"
  proof (rule disjE [OF w])
    assume "wals ?led' = wals led @ new"
    with new_ok show ?thesis by blast
  next
    assume "wals ?led' = wals led"
    then have "wals ?led' = wals led @ []" by simp
    then show ?thesis by (intro exI [of _ "[]"]) simp
  qed
  have 3: "(\<forall>w \<in> set (wals led). backup_exists led (wal_backup_id w)) \<longrightarrow>
        (\<forall>w \<in> set (wals ?led'). backup_exists ?led' (wal_backup_id w))"
  proof (intro impI ballI)
    fix w
    assume inv: "\<forall>w \<in> set (wals led). backup_exists led (wal_backup_id w)"
      and mem: "w \<in> set (wals ?led')"
    from mem w have "w \<in> set (wals led) \<or> w \<in> set new" by auto
    with inv new_ok have "backup_exists led (wal_backup_id w)" by blast
    with b show "backup_exists ?led' (wal_backup_id w)"
      by (auto simp: backup_exists_def)
  qed
  from 1 2 3 show ?thesis by blast
qed

theorem incremental_wal_rows_have_parent_witness:
  "map wal_backup_id
     (wals (fst (snd (create_incremental_backup (\<lambda>b. b) example_config example_incr_env
                        wal_storage ledger_with_id None)))) = [''id-1'']
   \<and> backup_exists ledger_with_id ''id-1''
   \<and> wals (fst (snd (create_incremental_backup (\<lambda>b. b) example_config example_incr_env
                        wal_storage empty_ledger None))) = []"
proof -
  let ?d = "wal_data_of example_incr_env ''/wal/00000000000000000000B.gz'' ''k'' ''4b'' 1"
  have rows: "map wal_backup_id
     (wals (fst (snd (create_incremental_backup (\<lambda>b. b) example_config example_incr_env
                        wal_storage ledger_with_id None)))) = [''id-1'']"
    by code_simp
  have none: "wals (fst (snd (create_incremental_backup (\<lambda>b. b) example_config example_incr_env
                        wal_storage empty_ledger None))) = []"
    by code_simp
  have rec: "create_wal_record ledger_with_id Db_ok ?d = Inr (ledger_with_id\<lparr>wals := wals ledger_with_id @ [?d]\<rparr>)"
    by code_simp
  from incremental_wal_rows_have_parent
         [of ledger_with_id Db_ok ?d "ledger_with_id\<lparr>wals := wals ledger_with_id @ [?d]\<rparr>"
             "\<lambda>b. b" example_config example_incr_env wal_storage None]
  have "backup_exists ledger_with_id (wal_backup_id ?d)"
    using rec by blast
  then have "backup_exists ledger_with_id ''id-1''"
    by (simp add: example_incr_env_def)
  with rows none show ?thesis by simp
qed

lemma incremental_new_rows:
  "\<exists>new. wals (fst (snd (create_incremental_backup H cfg env st led label_opt))) = wals led @ new
         \<and> new_rows_ok env led new"
proof -
  let ?fs = "get_wal_files (wal_directory cfg) (ie_listing env) (files st)"
  obtain st1 led1 u1 where r: "process_wal_files H cfg env ?fs st led [] = (st1, led1, u1)"
    by (cases "process_wal_files H cfg env ?fs st led []") auto
  from process_wal_files_ledger [OF r] obtain new where
    n: "wals led1 = wals led @ new" "new_rows_ok env led new"
    by blast
  have "wals (fst (snd (create_incremental_backup H cfg env st led label_opt))) = wals led @ new
        \<or> wals (fst (snd (create_incremental_backup H cfg env st led label_opt))) = wals led @ []"
    using r n(1) by (simp add: incremental_backup_ledger)
  moreover have "new_rows_ok env led []"
    by (simp add: new_rows_ok_def)
  ultimately show ?thesis using n(2) by blast
qed










section \<open>Full backup and the status of the records\<close>

lemma full_backup_insert_fails:
  "create_backup_record led outcome full_backup_keys d =
     Inl (if outcome = Db_conn_error then UnboundLocalError else KeyError)"
  by (simp add: create_backup_record_def carries_def full_backup_keys_def backup_insert_parameters_def)

text \<open>
  The dictionary of \<open>create_full_backup\<close> lacks seven named parameters of the \<open>INSERT\<close>:
  the record is never created, and the run ends in the handler. There the update to
  \<open>failed\<close> finds no connection and raises, or it goes on to answer \<open>(False, str(e))\<close>.
\<close>

lemma create_full_backup_result:
  "snd (snd (create_full_backup H cfg env st led label_opt)) =
     (if fe_fail env = Db_conn_error then Inl UnboundLocalError
      else Inr (False, Exc_text (if fe_create env = Db_conn_error
                                 then UnboundLocalError else KeyError)))"
  by (cases "fe_fail env")
     (simp_all add: create_full_backup_def full_backup_try_def full_backup_insert_fails
        update_backup_status_def Let_def)

lemma apply_update_fields:
  "status (apply_update s t kw row) = s"
  "backup_id (apply_update s t kw row) = backup_id row"
  "s3_key (apply_update s t kw row) = (case kw_s3_key kw of None \<Rightarrow> s3_key row | Some v \<Rightarrow> v)"
  "checksum (apply_update s t kw row) = (case kw_checksum kw of None \<Rightarrow> checksum row | Some v \<Rightarrow> v)"
  "s3_bucket (apply_update s t kw row) = s3_bucket row"
  "compression (apply_update s t kw row) = compression row"
  "row_encryption (apply_update s t kw row) = row_encryption row"
  by (simp_all add: apply_update_def Let_def split: option.splits)

text \<open>
  C3, as the code has it. The ledger does not guard the status of a record:
  \<open>update_backup_status\<close>, when the store takes the statement, writes the status it is
  given to every record with the identifier, whatever their status was, replaces the
  storage key and the checksum only when they are passed, never writes the bucket,
  compression and encryption columns although the engine passes them, and leaves the
  other records as they are. A record is completed with a key and a checksum when the
  completing update passes both, as the call in \<open>create_full_backup\<close> does.
\<close>

theorem update_backup_status_unguarded:
  "(\<exists>led'. update_backup_status led Db_ok bid new_status new_end_ts kw = Inr (led', True)
       \<and> length (backups led') = length (backups led)
       \<and> (\<forall>i < length (backups led).
             (backup_id (backups led ! i) \<noteq> bid \<longrightarrow> backups led' ! i = backups led ! i)
           \<and> (backup_id (backups led ! i) = bid \<longrightarrow>
                backup_id (backups led' ! i) = bid
              \<and> status (backups led' ! i) = new_status
              \<and> s3_key (backups led' ! i)
                  = (case kw_s3_key kw of None \<Rightarrow> s3_key (backups led ! i) | Some v \<Rightarrow> v)
              \<and> checksum (backups led' ! i)
                  = (case kw_checksum kw of None \<Rightarrow> checksum (backups led ! i) | Some v \<Rightarrow> v)
              \<and> s3_bucket (backups led' ! i) = s3_bucket (backups led ! i)
              \<and> compression (backups led' ! i) = compression (backups led ! i)
              \<and> row_encryption (backups led' ! i) = row_encryption (backups led ! i))))
   \<and> kw_s3_key (completed_kwargs cfg backup_file file_size key csum) = Some (Some key)
   \<and> kw_checksum (completed_kwargs cfg backup_file file_size key csum) = Some (Some csum)"
proof (intro conjI)
  let ?led' = "led\<lparr>backups := map (\<lambda>row. if backup_id row = bid
                                           then apply_update new_status new_end_ts kw row
                                           else row) (backups led)\<rparr>"
  have "update_backup_status led Db_ok bid new_status new_end_ts kw = Inr (?led', True)"
    by (simp add: update_backup_status_def)
  moreover have "length (backups ?led') = length (backups led)"
    by simp
  moreover have "\<forall>i < length (backups led).
             (backup_id (backups led ! i) \<noteq> bid \<longrightarrow> backups ?led' ! i = backups led ! i)
           \<and> (backup_id (backups led ! i) = bid \<longrightarrow>
                backup_id (backups ?led' ! i) = bid
              \<and> status (backups ?led' ! i) = new_status
              \<and> s3_key (backups ?led' ! i)
                  = (case kw_s3_key kw of None \<Rightarrow> s3_key (backups led ! i) | Some v \<Rightarrow> v)
              \<and> checksum (backups ?led' ! i)
                  = (case kw_checksum kw of None \<Rightarrow> checksum (backups led ! i) | Some v \<Rightarrow> v)
              \<and> s3_bucket (backups ?led' ! i) = s3_bucket (backups led ! i)
              \<and> compression (backups ?led' ! i) = compression (backups led ! i)
              \<and> row_encryption (backups ?led' ! i) = row_encryption (backups led ! i))"
    by (simp add: apply_update_fields)
  ultimately show "\<exists>led'. update_backup_status led Db_ok bid new_status new_end_ts kw = Inr (led', True)
       \<and> length (backups led') = length (backups led)
       \<and> (\<forall>i < length (backups led).
             (backup_id (backups led ! i) \<noteq> bid \<longrightarrow> backups led' ! i = backups led ! i)
           \<and> (backup_id (backups led ! i) = bid \<longrightarrow>
                backup_id (backups led' ! i) = bid
              \<and> status (backups led' ! i) = new_status
              \<and> s3_key (backups led' ! i)
                  = (case kw_s3_key kw of None \<Rightarrow> s3_key (backups led ! i) | Some v \<Rightarrow> v)
              \<and> checksum (backups led' ! i)
                  = (case kw_checksum kw of None \<Rightarrow> checksum (backups led ! i) | Some v \<Rightarrow> v)
              \<and> s3_bucket (backups led' ! i) = s3_bucket (backups led ! i)
              \<and> compression (backups led' ! i) = compression (backups led ! i)
              \<and> row_encryption (backups led' ! i) = row_encryption (backups led ! i)))"
    by blast
  show "kw_s3_key (completed_kwargs cfg backup_file file_size key csum) = Some (Some key)"
    by (simp add: completed_kwargs_def)
  show "kw_checksum (completed_kwargs cfg backup_file file_size key csum) = Some (Some csum)"
    by (simp add: completed_kwargs_def)
qed

theorem update_backup_status_unguarded_witness:
  "(case update_backup_status ledger_with_id Db_ok ''id-1'' ''completed'' (Some (5 * day))
           (completed_kwargs example_config ''/tmp/b/id-1.sql'' 1 ''backups/full/2024/01/02/id-1.sql'' ''4a'') of
      Inl e \<Rightarrow> False
    | Inr (l, ok) \<Rightarrow>
        ok \<and> map status (backups l) = [''completed'']
           \<and> map s3_key (backups l) = [Some ''backups/full/2024/01/02/id-1.sql'']
           \<and> map checksum (backups l) = [Some ''4a''])
   \<and> map status (backups ledger_with_id) = [''running'']"
proof -
  let ?kw = "completed_kwargs example_config ''/tmp/b/id-1.sql'' 1 ''backups/full/2024/01/02/id-1.sql'' ''4a''"
  have one: "length (backups ledger_with_id) = 1" "backup_id (backups ledger_with_id ! 0) = ''id-1''"
    "map status (backups ledger_with_id) = [''running'']"
    by (simp_all add: ledger_with_id_def example_row_def)
  from update_backup_status_unguarded
         [of ledger_with_id "''id-1''" "''completed''" "Some (5 * day)" ?kw
             example_config "''/tmp/b/id-1.sql''" 1 "''backups/full/2024/01/02/id-1.sql''" "''4a''"]
  obtain led' where
    u: "update_backup_status ledger_with_id Db_ok ''id-1'' ''completed'' (Some (5 * day)) ?kw
          = Inr (led', True)"
    and len: "length (backups led') = length (backups ledger_with_id)"
    and row: "\<forall>i < length (backups ledger_with_id).
               (backup_id (backups ledger_with_id ! i) = ''id-1'' \<longrightarrow>
                  status (backups led' ! i) = ''completed''
                \<and> s3_key (backups led' ! i)
                    = (case kw_s3_key ?kw of None \<Rightarrow> s3_key (backups ledger_with_id ! i) | Some v \<Rightarrow> v)
                \<and> checksum (backups led' ! i)
                    = (case kw_checksum ?kw of None \<Rightarrow> checksum (backups ledger_with_id ! i) | Some v \<Rightarrow> v))"
    and kw: "kw_s3_key ?kw = Some (Some ''backups/full/2024/01/02/id-1.sql'')"
            "kw_checksum ?kw = Some (Some ''4a'')"
    by blast
  from len one(1) obtain r where r: "backups led' = [r]"
    by (cases "backups led'") auto
  from row one(1,2) kw r
  have "status r = ''completed''" "s3_key r = Some ''backups/full/2024/01/02/id-1.sql''"
       "checksum r = Some ''4a''"
    by simp_all
  with u r one(3) show ?thesis by simp
qed

theorem ledger_status_unguarded_counterexample:
  "update_backup_status ledger_with_id Db_ok ''id-1'' ''completed'' None no_kwargs
     = Inr (completed_without_key, True)
   \<and> map status (backups completed_without_key) = [''completed'']
   \<and> map s3_key (backups completed_without_key) = [None]
   \<and> map checksum (backups completed_without_key) = [None]
   \<and> update_backup_status completed_without_key Db_ok ''id-1'' ''running'' None no_kwargs
     = Inr (ledger_with_id, True)"
  by (simp add: update_backup_status_def apply_update_def no_kwargs_def ledger_with_id_def
        completed_without_key_def example_row_def)

section \<open>A ledger write that fails\<close>

text \<open>
  C2. A run of \<open>create_full_backup\<close> while no connection to the store can be had, for
  the \<open>INSERT\<close> of the record and for the update that marks it failed: the handler of
  \<open>update_backup_status\<close> reads \<open>conn\<close>, which was never bound, and the
  \<open>UnboundLocalError\<close> leaves \<open>create_full_backup\<close>. The caller gets an exception and
  no \<open>(False, detail)\<close>.
\<close>

theorem full_backup_raises_without_connection:
  "snd (snd (create_full_backup (\<lambda>b. b) example_config
               (example_full_env\<lparr>fe_create := Db_conn_error, fe_fail := Db_conn_error\<rparr>)
               empty_storage empty_ledger None))
     = Inl UnboundLocalError
   \<and> snd (snd (create_full_backup (\<lambda>b. b) example_config
               (example_full_env\<lparr>fe_create := Db_exec_error, fe_fail := Db_exec_error\<rparr>)
               empty_storage empty_ledger None))
     = Inr (False, Exc_text KeyError)"
  by code_simp


section \<open>Sequence numbers\<close>

lemma hex_char_facts:
  assumes "is_upper_hex c \<or> is_lower_hex c"
  shows "digit_val c = Some (hex_char_value c)" and "hex_char_value c < 16"
    and "c \<noteq> CHR ''_''" and "c \<noteq> CHR ''.''" and "c \<noteq> CHR ''-''" and "c \<noteq> CHR ''+''"
    and "c \<noteq> CHR ''x''" and "c \<noteq> CHR ''X''" and "\<not> is_space c"
  using assms
  by (auto simp: is_upper_hex_def is_lower_hex_def digit_val_def hex_char_value_def
        is_space_def Let_def)

lemma hex_char_mono:
  assumes "(is_upper_hex a \<and> is_upper_hex b) \<or> (is_lower_hex a \<and> is_lower_hex b)" and "a < b"
  shows "hex_char_value a < hex_char_value b"
  using assms
  by (auto simp: is_upper_hex_def is_lower_hex_def hex_char_value_def Let_def less_char_def)

lemma hex_digits_value:
  "list_all (\<lambda>c. is_upper_hex c \<or> is_lower_hex c) cs \<Longrightarrow>
     hex_digits acc cs = Some (foldl (\<lambda>acc c. 16 * acc + hex_char_value c) acc cs)"
  by (induction acc cs rule: hex_digits.induct) (simp_all add: hex_char_facts)

lemma hex_number_value:
  assumes "xs \<noteq> []" and "list_all (\<lambda>c. is_upper_hex c \<or> is_lower_hex c) xs"
  shows "hex_number xs = Some (base16_value xs)"
  using assms
  by (cases xs) (simp_all add: hex_number_def base16_value_def hex_char_facts hex_digits_value)

lemma dropWhile_id: "xs \<noteq> [] \<Longrightarrow> \<not> P (hd xs) \<Longrightarrow> dropWhile P xs = xs"
  by (cases xs) simp_all

lemma strip_hex:
  assumes "xs \<noteq> []" and "list_all (\<lambda>c. is_upper_hex c \<or> is_lower_hex c) xs"
  shows "strip xs = xs"
proof -
  have "\<not> is_space (hd xs)" "\<not> is_space (last xs)"
    using assms by (auto simp: list_all_iff hex_char_facts)
  then show ?thesis
    using assms(1) by (simp add: strip_def dropWhile_id hd_rev)
qed

lemma unprefixed_hex:
  assumes "list_all (\<lambda>c. is_upper_hex c \<or> is_lower_hex c) xs"
  shows "unprefixed xs = xs"
  using assms
  by (auto simp: unprefixed_def is_upper_hex_def is_lower_hex_def Let_def split: list.splits)

lemma py_int16_hex:
  assumes "xs \<noteq> []" and "list_all (\<lambda>c. is_upper_hex c \<or> is_lower_hex c) xs"
  shows "py_int16 xs = Some (int (base16_value xs))"
proof -
  obtain c cs where xs: "xs = c # cs" using assms(1) by (cases xs) auto
  with assms(2) have c: "c \<noteq> CHR ''-''" "c \<noteq> CHR ''+''"
    by (auto simp: hex_char_facts)
  show ?thesis
    using assms c unprefixed_hex [OF assms(2)] hex_number_value [OF assms]
    by (simp add: py_int16_def strip_hex xs)
qed

lemma split_first_suffix:
  assumes "list_all (\<lambda>c. is_upper_hex c \<or> is_lower_hex c) xs"
  shows "split_first CHR ''.'' (xs @ ''.gz'') = xs"
proof -
  have "\<forall>c \<in> set xs. c \<noteq> CHR ''.''"
    using assms by (auto simp: list_all_iff hex_char_facts)
  then show ?thesis
    by (simp add: split_first_def takeWhile_append2)
qed

lemma extract_hex:
  assumes "xs \<noteq> []" and "list_all (\<lambda>c. is_upper_hex c \<or> is_lower_hex c) xs"
  shows "extract_wal_sequence (xs @ ''.gz'') = int (base16_value xs)"
  using assms by (simp add: extract_wal_sequence_def split_first_suffix py_int16_hex)

lemma foldl_acc_mono:
  assumes "length xs = length ys"
    and "list_all (\<lambda>c. hex_char_value c < 16) xs"
    and "(a :: nat) < b"
  shows "foldl (\<lambda>acc c. 16 * acc + hex_char_value c) a xs
         < foldl (\<lambda>acc c. 16 * acc + hex_char_value c) b ys"
  using assms
proof (induction xs ys arbitrary: a b rule: list_induct2)
  case Nil
  then show ?case by simp
next
  case (Cons x xs y ys)
  then have "16 * a + hex_char_value x < 16 * b + hex_char_value y" by simp
  with Cons show ?case by simp
qed

lemma foldl_lex_mono:
  assumes "length xs = length ys"
    and "list_all is_upper_hex (xs @ ys) \<or> list_all is_lower_hex (xs @ ys)"
    and "xs < ys"
  shows "foldl (\<lambda>acc c. 16 * acc + hex_char_value c) a xs
         < foldl (\<lambda>acc c. 16 * acc + hex_char_value c) a ys"
  using assms
proof (induction xs ys arbitrary: a rule: list_induct2)
  case Nil
  then show ?case by simp
next
  case (Cons x xs y ys)
  from Cons.prems(1) have bound: "list_all (\<lambda>c. hex_char_value c < 16) xs"
    by (auto simp: list_all_iff hex_char_facts)
  from Cons.prems(1) have cases: "(is_upper_hex x \<and> is_upper_hex y) \<or> (is_lower_hex x \<and> is_lower_hex y)"
    by auto
  from Cons.prems(1) have rest: "list_all is_upper_hex (xs @ ys) \<or> list_all is_lower_hex (xs @ ys)"
    by auto
  from Cons.prems(2) consider "x < y" | "x = y" "xs < ys" by auto
  then show ?case
  proof cases
    case 1
    with cases have "hex_char_value x < hex_char_value y" by (rule hex_char_mono [rotated -1, rotated])
    then have "16 * a + hex_char_value x < 16 * a + hex_char_value y" by simp
    from foldl_acc_mono [OF Cons.hyps(1) bound this] show ?thesis by simp
  next
    case 2
    with Cons.IH [OF rest] show ?thesis by simp
  qed
qed

lemma append_less_same_length:
  "length xs = length ys \<Longrightarrow> xs @ s < ys @ s \<longleftrightarrow> xs < (ys :: string)"
  by (induction xs ys rule: list_induct2) simp_all

lemma get_wals_sorted:
  "sorted (map sequence_number (get_wals_for_backup led query_ok bid))"
  by (simp add: get_wals_for_backup_def)

lemma get_wals_set:
  "set (get_wals_for_backup led True bid) = {w \<in> set (wals led). wal_backup_id w = bid}"
  by (auto simp: get_wals_for_backup_def)

text \<open>
  C7, as the code has it. The sequence number stored with a WAL row is
  \<open>extract_wal_sequence\<close> of its file name: the part before the first dot read by
  \<open>int(name_part, 16)\<close>, and 0 when that raises; for a part made of hexadecimal digits
  of either case this is its base-16 value. For two names that are a part followed by
  \<open>.gz\<close>, with parts of the same length made of digits and letters of one case,
  lexical order of the names gives strictly increasing sequence numbers.
  \<open>get_wals_for_backup\<close> returns the rows of the backup ordered by sequence number,
  ascending, rows with equal numbers side by side.
\<close>

theorem wal_sequence_numbers:
  "(\<exists>new. wals (fst (snd (create_incremental_backup H cfg env st led label_opt))) = wals led @ new
          \<and> (\<forall>w \<in> set new. sequence_number w = extract_wal_sequence (wal_name w)))
   \<and> extract_wal_sequence name =
        (case py_int16 (split_first CHR ''.'' name) of None \<Rightarrow> 0 | Some n \<Rightarrow> n)
   \<and> (xs \<noteq> [] \<and> list_all is_hex xs \<longrightarrow>
        extract_wal_sequence (xs @ ''.gz'') = int (base16_value xs))
   \<and> (xs \<noteq> [] \<and> length xs = length ys \<and> one_case_hex xs ys \<and> xs @ ''.gz'' < ys @ ''.gz'' \<longrightarrow>
        extract_wal_sequence (xs @ ''.gz'') < extract_wal_sequence (ys @ ''.gz''))
   \<and> sorted (map sequence_number (get_wals_for_backup led query_ok bid))
   \<and> set (get_wals_for_backup led True bid) = {w \<in> set (wals led). wal_backup_id w = bid}"
proof (intro conjI impI)
  from incremental_new_rows [of H cfg env st led label_opt]
  show "\<exists>new. wals (fst (snd (create_incremental_backup H cfg env st led label_opt))) = wals led @ new
          \<and> (\<forall>w \<in> set new. sequence_number w = extract_wal_sequence (wal_name w))"
    by (auto simp: new_rows_ok_def)
next
  show "extract_wal_sequence name =
        (case py_int16 (split_first CHR ''.'' name) of None \<Rightarrow> 0 | Some n \<Rightarrow> n)"
    by (simp add: extract_wal_sequence_def)
next
  assume "xs \<noteq> [] \<and> list_all is_hex xs"
  then have "xs \<noteq> []" "list_all (\<lambda>c. is_upper_hex c \<or> is_lower_hex c) xs"
    by (auto simp: is_hex_def list_all_iff)
  then show "extract_wal_sequence (xs @ ''.gz'') = int (base16_value xs)"
    by (rule extract_hex)
next
  assume a: "xs \<noteq> [] \<and> length xs = length ys \<and> one_case_hex xs ys \<and> xs @ ''.gz'' < ys @ ''.gz''"
  then have len: "length xs = length ys" and ne: "xs \<noteq> []" "ys \<noteq> []"
    and one: "list_all is_upper_hex (xs @ ys) \<or> list_all is_lower_hex (xs @ ys)"
    by (auto simp: one_case_hex_def)
  from one have hx: "list_all (\<lambda>c. is_upper_hex c \<or> is_lower_hex c) xs"
    and hy: "list_all (\<lambda>c. is_upper_hex c \<or> is_lower_hex c) ys"
    by (auto simp: list_all_iff)
  from a len have "xs < ys"
    by (simp add: append_less_same_length)
  from foldl_lex_mono [OF len one this, of 0]
  have "base16_value xs < base16_value ys"
    by (simp add: base16_value_def)
  then show "extract_wal_sequence (xs @ ''.gz'') < extract_wal_sequence (ys @ ''.gz'')"
    by (simp add: extract_hex [OF ne(1) hx] extract_hex [OF ne(2) hy])
next
  show "sorted (map sequence_number (get_wals_for_backup led query_ok bid))"
    by (rule get_wals_sorted)
  show "set (get_wals_for_backup led True bid) = {w \<in> set (wals led). wal_backup_id w = bid}"
    by (rule get_wals_set)
qed

theorem wal_sequence_numbers_witness:
  "extract_wal_sequence ''0000000000000000000aB.gz'' = 171
   \<and> extract_wal_sequence ''00000000000000000000A.gz'' < extract_wal_sequence ''00000000000000000001F.gz''
   \<and> map sequence_number (get_wals_for_backup ledger_with_equal_sequences True ''id-1'') = [0, 0]
   \<and> map wal_name (wals (fst (snd (create_incremental_backup (\<lambda>b. b) example_config
                                      example_incr_env wal_storage ledger_with_id None))))
       = [''00000000000000000000B.gz'']
   \<and> map sequence_number (wals (fst (snd (create_incremental_backup (\<lambda>b. b) example_config
                                      example_incr_env wal_storage ledger_with_id None))))
       = [11]"
proof -
  have h: "''00000000000000000000A'' \<noteq> []
           \<and> length ''00000000000000000000A'' = length ''00000000000000000001F''
           \<and> one_case_hex ''00000000000000000000A'' ''00000000000000000001F''
           \<and> ''00000000000000000000A'' @ ''.gz'' < ''00000000000000000001F'' @ ''.gz''"
    by code_simp
  have h1: "''0000000000000000000aB'' \<noteq> [] \<and> list_all is_hex ''0000000000000000000aB''"
    by code_simp
  have v: "int (base16_value ''0000000000000000000aB'') = 171"
    by code_simp
  have s: "map sequence_number (get_wals_for_backup ledger_with_equal_sequences True ''id-1'') = [0, 0]"
    by code_simp
  have n: "map wal_name (wals (fst (snd (create_incremental_backup (\<lambda>b. b) example_config
                                      example_incr_env wal_storage ledger_with_id None))))
       = [''00000000000000000000B.gz'']"
    by code_simp
  have q: "extract_wal_sequence ''00000000000000000000B.gz'' = 11"
    by code_simp
  note inst_order = wal_sequence_numbers [of "\<lambda>b. b" example_config example_incr_env wal_storage
         ledger_with_id None "''x''" "''00000000000000000000A''" "''00000000000000000001F''" True "''id-1''"]
  note inst_value = wal_sequence_numbers [of "\<lambda>b. b" example_config example_incr_env wal_storage
         ledger_with_id None "''x''" "''0000000000000000000aB''" "''0000000000000000000aB''" True "''id-1''"]
  from inst_order h
  have 2: "extract_wal_sequence ''00000000000000000000A.gz'' < extract_wal_sequence ''00000000000000000001F.gz''"
    by simp
  from inst_value h1 v have 1: "extract_wal_sequence ''0000000000000000000aB.gz'' = 171"
    by simp
  from inst_order obtain new where
    new: "wals (fst (snd (create_incremental_backup (\<lambda>b. b) example_config example_incr_env
                            wal_storage ledger_with_id None))) = wals ledger_with_id @ new"
         "\<forall>w \<in> set new. sequence_number w = extract_wal_sequence (wal_name w)"
    by blast
  have "wals ledger_with_id = []"
    by (simp add: ledger_with_id_def)
  with new(1) n have "map wal_name new = [''00000000000000000000B.gz'']" by simp
  then obtain w where w: "new = [w]" "wal_name w = ''00000000000000000000B.gz''"
    by (cases new) auto
  with new(2) q have "sequence_number w = 11" by simp
  with w new(1) \<open>wals ledger_with_id = []\<close>
  have 5: "map sequence_number (wals (fst (snd (create_incremental_backup (\<lambda>b. b) example_config
                                      example_incr_env wal_storage ledger_with_id None)))) = [11]"
    by simp
  from 1 2 s n 5 show ?thesis by blast
qed

theorem wal_sequence_order_counterexample:
  "''00000000000000000000B.gz'' < ''00000000000000000000a.gz''
   \<and> py_int16 ''00000000000000000000B'' = Some 11
   \<and> py_int16 ''00000000000000000000a'' = Some 10
   \<and> extract_wal_sequence ''00000000000000000000B.gz'' = 11
   \<and> extract_wal_sequence ''00000000000000000000a.gz'' = 10
   \<and> extract_wal_sequence ''0000000000000000000zz.gz'' = 0
   \<and> map sequence_number (get_wals_for_backup ledger_with_equal_sequences True ''id-1'') = [0, 0]"
  by code_simp


section \<open>Point-in-time replay\<close>

lemma download_file_success:
  "fst (snd (download_file H env st key local_path)) = download_succeeds H env (objects st) key"
  by (simp add: download_file_def download_succeeds_def verify_checksum_def
        calculate_checksum_def Let_def split: option.splits)

lemma download_file_objects:
  "objects (fst (download_file H env st key local_path)) = objects st"
  by (simp add: download_file_def verify_checksum_def calculate_checksum_def Let_def
        split: option.splits)

text \<open>One turn of the loop, by what it meets.\<close>

lemma apply_wal_loop_no_key:
  "wal_s3_key w = None \<Longrightarrow>
     apply_wal_loop H cfg env target (w # rest) st acc = apply_wal_loop H cfg env target rest st acc"
  by simp

lemma apply_wal_loop_step:
  assumes "wal_s3_key w = Some key"
    and "download_file H (we_transfer (re_wal env w)) st key (rc_temp_dir cfg @ ''/'' @ basename key)
           = (st1, success, message)"
  shows "apply_wal_loop H cfg env target (w # rest) st acc =
           (if \<not> success then apply_wal_loop H cfg env target rest st1 acc
            else (case datetime_gt (Aware (wal_end_ts w)) target of
                    Inl e \<Rightarrow> apply_wal_loop H cfg env target rest st1 acc
                  | Inr later \<Rightarrow>
                      if later then (st1, acc)
                      else if apply_single_wal (re_wal env w)
                      then apply_wal_loop H cfg env target rest st1 (acc @ [basename key])
                      else apply_wal_loop H cfg env target rest st1 acc))"
  using assms by (simp add: Let_def)

declare apply_wal_loop.simps(2) [simp del]

lemma datetime_gt_aware [simp]:
  "datetime_gt (Aware a) (Aware b) = Inr (b < a)"
  "datetime_gt (Aware a) (Naive b) = Inl TypeError"
  by (simp_all add: datetime_gt_def)


lemma apply_wal_loop_naive:
  "snd (apply_wal_loop H cfg env (Naive t) rows st acc) = acc"
proof (induction rows arbitrary: st acc)
  case Nil
  then show ?case by simp
next
  case (Cons p ps)
  show ?case
  proof (cases "wal_s3_key p")
    case None
    with Cons show ?thesis by (simp add: apply_wal_loop_no_key)
  next
    case (Some key)
    obtain st1 success message where
      d: "download_file H (we_transfer (re_wal env p)) st key (rc_temp_dir cfg @ ''/'' @ basename key)
            = (st1, success, message)"
      by (cases "download_file H (we_transfer (re_wal env p)) st key (rc_temp_dir cfg @ ''/'' @ basename key)") auto
    from Cons.IH show ?thesis
      by (simp add: apply_wal_loop_step [OF Some d])
  qed
qed

lemma apply_wal_loop_applied:
  "set (snd (apply_wal_loop H cfg env (Aware target) rows st acc)) \<subseteq>
     set acc \<union> {basename key | w key. w \<in> set rows \<and> wal_s3_key w = Some key
                                   \<and> wal_end_ts w \<le> target \<and> apply_single_wal (re_wal env w)}"
proof -
  define S where "S = (\<lambda>rows. {basename key | w key. w \<in> set rows \<and> wal_s3_key w = Some key
                                   \<and> wal_end_ts w \<le> target \<and> apply_single_wal (re_wal env w)})"
  have mono: "\<And>p ps. S ps \<subseteq> S (p # ps)"
    by (auto simp: S_def)
  have member: "\<And>p ps key. wal_s3_key p = Some key \<Longrightarrow> wal_end_ts p \<le> target \<Longrightarrow>
                 apply_single_wal (re_wal env p) \<Longrightarrow> basename key \<in> S (p # ps)"
    by (auto simp: S_def)
  have "set (snd (apply_wal_loop H cfg env (Aware target) rows st acc)) \<subseteq> set acc \<union> S rows"
  proof (induction rows arbitrary: st acc)
    case Nil
    then show ?case by simp
  next
    case (Cons p ps)
    show ?case
    proof (cases "wal_s3_key p")
      case None
      have eq: "apply_wal_loop H cfg env (Aware target) (p # ps) st acc
                  = apply_wal_loop H cfg env (Aware target) ps st acc"
        using None by (rule apply_wal_loop_no_key)
      from Cons.IH [of st acc] mono [of ps p] show ?thesis
        unfolding eq by blast
    next
      case (Some key)
      obtain st1 success message where
        d: "download_file H (we_transfer (re_wal env p)) st key (rc_temp_dir cfg @ ''/'' @ basename key)
              = (st1, success, message)"
        by (cases "download_file H (we_transfer (re_wal env p)) st key (rc_temp_dir cfg @ ''/'' @ basename key)") auto
      consider (skip) "apply_wal_loop H cfg env (Aware target) (p # ps) st acc
                        = apply_wal_loop H cfg env (Aware target) ps st1 acc"
        | (stop) "apply_wal_loop H cfg env (Aware target) (p # ps) st acc = (st1, acc)"
        | (app) "wal_end_ts p \<le> target" "apply_single_wal (re_wal env p)"
                "apply_wal_loop H cfg env (Aware target) (p # ps) st acc
                        = apply_wal_loop H cfg env (Aware target) ps st1 (acc @ [basename key])"
        by (cases success; cases "target < wal_end_ts p"; cases "apply_single_wal (re_wal env p)")
           (simp_all add: apply_wal_loop_step [OF Some d])
      then show ?thesis
      proof cases
        case skip
        from Cons.IH [of st1 acc] mono [of ps p] show ?thesis
          unfolding skip by blast
      next
        case stop
        then show ?thesis by simp
      next
        case app
        from Cons.IH [of st1 "acc @ [basename key]"] mono [of ps p] member [OF Some app(1,2), of ps]
        show ?thesis
          unfolding app(3) by auto
      qed
    qed
  qed
  then show ?thesis by (simp add: S_def)
qed

lemma apply_wal_loop_stops:
  assumes "wal_s3_key w = Some key"
    and "download_succeeds H (we_transfer (re_wal env w)) (objects st) key"
    and "target < wal_end_ts w"
  shows "snd (apply_wal_loop H cfg env (Aware target) (pre @ w # post) st acc)
         = snd (apply_wal_loop H cfg env (Aware target) pre st acc)"
  using assms(2)
proof (induction pre arbitrary: st acc)
  case Nil
  obtain st1 success message where
    d: "download_file H (we_transfer (re_wal env w)) st key (rc_temp_dir cfg @ ''/'' @ basename key)
          = (st1, success, message)"
    by (cases "download_file H (we_transfer (re_wal env w)) st key (rc_temp_dir cfg @ ''/'' @ basename key)") auto
  from d Nil have "success"
    using download_file_success [of H "we_transfer (re_wal env w)" st key "rc_temp_dir cfg @ ''/'' @ basename key"]
    by simp
  with assms(3) show ?case
    by (simp add: apply_wal_loop_step [OF assms(1) d])
next
  case (Cons p ps)
  show ?case
  proof (cases "wal_s3_key p")
    case None
    with Cons show ?thesis by (simp add: apply_wal_loop_no_key)
  next
    case (Some pkey)
    obtain st1 success message where
      d: "download_file H (we_transfer (re_wal env p)) st pkey (rc_temp_dir cfg @ ''/'' @ basename pkey)
            = (st1, success, message)"
      by (cases "download_file H (we_transfer (re_wal env p)) st pkey (rc_temp_dir cfg @ ''/'' @ basename pkey)") auto
    have "objects st1 = objects st"
      using download_file_objects [of H "we_transfer (re_wal env p)" st pkey "rc_temp_dir cfg @ ''/'' @ basename pkey"] d
      by simp
    with Cons.prems have "download_succeeds H (we_transfer (re_wal env w)) (objects st1) key" by simp
    from Cons.IH [OF this] show ?thesis
      by (simp add: apply_wal_loop_step [OF Some d])
  qed
qed



lemma restore_insert_fails:
  "create_restore_record led outcome restore_keys d =
     Inl (if outcome = Db_conn_error then UnboundLocalError else KeyError)"
  by (simp add: create_restore_record_def carries_def restore_keys_def restore_insert_parameters_def)

text \<open>
  The dictionary of \<open>restore_backup\<close> lacks \<open>target_xid\<close> and \<open>target_lsn\<close>, which the
  \<open>INSERT\<close> of the restore record names: every run leaves the \<open>try\<close> block with an
  exception, before anything is downloaded, and none reports success.
\<close>

lemma restore_try_raises:
  "isl (snd (snd (restore_try H P cfg env st led b target_opt d)))"
  by (simp add: restore_try_def restore_insert_fails Let_def split: sum.splits prod.splits option.splits)

lemma restore_backup_never_succeeds:
  "snd (snd (restore_backup H P cfg env st led b target_opt d)) \<noteq> Inr (True, x)"
proof -
  obtain st' led' r where t: "restore_try H P cfg env st led b target_opt d = (st', led', r)"
    by (cases "restore_try H P cfg env st led b target_opt d") auto
  with restore_try_raises [of H P cfg env st led b target_opt d] obtain e where "r = Inl e"
    by (cases r) auto
  with t show ?thesis
    by (cases "re_fail env") (simp_all add: restore_backup_def update_restore_status_def)
qed






end
